theory Spec2Isabelle
  imports Main "HOL-Library.Sublist"
begin

section \<open>Python values and built-ins used by the score-code generator\<close>

text \<open>
  The generator of \<^verbatim>\<open>sasctl/pzmm/write_score_code.py\<close> builds Python source text in the
  class attribute \<^verbatim>\<open>ScoreCode.score_code\<close>. The attribute is modelled as a string that
  every stage receives and returns; a stage that can raise returns the buffer together with
  either the exception or its value, because an exception leaves the attribute as it was
  when the exception was raised.

  A character stands for a code point below 256. The built-ins of Python that the source
  calls (\<^verbatim>\<open>str.isidentifier\<close>, \<^verbatim>\<open>repr\<close>, \<^verbatim>\<open>int\<close>, \<^verbatim>\<open>str.join\<close>, \<^verbatim>\<open>str.find\<close>, \<^verbatim>\<open>str.split\<close>,
  slicing) are written out for such strings.
\<close>

datatype py_error =
    SyntaxError string
  | ValueError string
  | TypeError
  | KeyError
  | IndexError
  | UnboundLocalError

abbreviation NL :: string where "NL \<equiv> [CHR 0x0A]"
abbreviation DQ :: string where "DQ \<equiv> [CHR 0x22]"
abbreviation SQ :: string where "SQ \<equiv> [CHR 0x27]"
abbreviation BS :: string where "BS \<equiv> [CHR 0x5C]"

text \<open>\<^verbatim>\<open>f"{'':n}"\<close>: the empty string padded to width \<open>n\<close>.\<close>

definition sp :: "nat \<Rightarrow> string" where
  "sp n = replicate n (CHR '' '')"

text \<open>\<^verbatim>\<open>sep.join(xs)\<close>.\<close>

fun join :: "string \<Rightarrow> string list \<Rightarrow> string" where
  "join sep [] = []"
| "join sep [x] = x"
| "join sep (x # y # ys) = x @ sep @ join sep (y # ys)"

text \<open>An optional string inside an f-string: \<^verbatim>\<open>None\<close> is rendered as the word None.\<close>

fun fmt_opt :: "string option \<Rightarrow> string" where
  "fmt_opt None = ''None''"
| "fmt_opt (Some s) = s"

text \<open>Truth value of an optional string: \<^verbatim>\<open>None\<close> and the empty string are false.\<close>

fun truthy :: "string option \<Rightarrow> bool" where
  "truthy None = False"
| "truthy (Some s) = (s \<noteq> [])"

subsection \<open>Decimal text of integers\<close>

definition digit_char :: "nat \<Rightarrow> char" where
  "digit_char d = char_of (48 + d)"

function show_nat :: "nat \<Rightarrow> string" where
  "show_nat n = (if n < 10 then [digit_char n] else show_nat (n div 10) @ [digit_char (n mod 10)])"
  by pat_completeness auto
termination
  by (relation "measure (\<lambda>n. n)") auto

declare show_nat.simps [simp del]

definition show_int :: "int \<Rightarrow> string" where
  "show_int i = (if i < 0 then ''-'' @ show_nat (nat (- i)) else show_nat (nat i))"

subsection \<open>\<^verbatim>\<open>str.isidentifier\<close>\<close>

definition xid_start :: "char \<Rightarrow> bool" where
  "xid_start c =
     (let n = (of_char c :: nat) in
        (65 \<le> n \<and> n \<le> 90) \<or> (97 \<le> n \<and> n \<le> 122) \<or> n = 95 \<or>
        n = 170 \<or> n = 181 \<or> n = 186 \<or>
        (192 \<le> n \<and> n \<le> 214) \<or> (216 \<le> n \<and> n \<le> 246) \<or> 248 \<le> n)"

definition xid_continue :: "char \<Rightarrow> bool" where
  "xid_continue c =
     (let n = (of_char c :: nat) in xid_start c \<or> (48 \<le> n \<and> n \<le> 57) \<or> n = 183)"

fun isidentifier :: "string \<Rightarrow> bool" where
  "isidentifier [] = False"
| "isidentifier (c # cs) = (xid_start c \<and> list_all xid_continue cs)"

subsection \<open>\<^verbatim>\<open>repr\<close> of strings, integers and lists\<close>

definition hex_digit :: "nat \<Rightarrow> char" where
  "hex_digit d = (if d < 10 then char_of (48 + d) else char_of (87 + d))"

definition printable :: "char \<Rightarrow> bool" where
  "printable c =
     (let n = (of_char c :: nat) in
        (32 \<le> n \<and> n \<le> 126) \<or> (161 \<le> n \<and> n \<le> 172) \<or> 174 \<le> n)"

definition repr_char :: "char \<Rightarrow> char \<Rightarrow> string" where
  "repr_char quote c =
     (if c = quote \<or> c = CHR 0x5C then [CHR 0x5C, c]
      else if c = CHR 0x09 then BS @ ''t''
      else if c = CHR 0x0A then BS @ ''n''
      else if c = CHR 0x0D then BS @ ''r''
      else if printable c then [c]
      else BS @ ''x'' @ [hex_digit (of_char c div 16), hex_digit (of_char c mod 16)])"

definition repr_str :: "string \<Rightarrow> string" where
  "repr_str s =
     (let quote = (if CHR 0x27 \<in> set s \<and> CHR 0x22 \<notin> set s then CHR 0x22 else CHR 0x27)
      in [quote] @ concat (map (repr_char quote) s) @ [quote])"

text \<open>A target value is a Python integer or a Python string.\<close>

datatype pyval = PInt int | PStr string

fun repr_val :: "pyval \<Rightarrow> string" where
  "repr_val (PInt i) = show_int i"
| "repr_val (PStr s) = repr_str s"

definition repr_list :: "('a \<Rightarrow> string) \<Rightarrow> 'a list \<Rightarrow> string" where
  "repr_list r xs = ''['' @ join '', '' (map r xs) @ '']''"

subsection \<open>\<^verbatim>\<open>int(x)\<close>\<close>

text \<open>
  The blanks that \<^verbatim>\<open>int\<close> skips around a literal: tab, line feed, vertical tab, form feed,
  carriage return and space, and the white space above U+007F, which is U+0085 and U+00A0
  among the code points below 256. The separators U+001C to U+001F are not skipped.
\<close>

definition is_space :: "char \<Rightarrow> bool" where
  "is_space c =
     (let n = (of_char c :: nat) in
        (9 \<le> n \<and> n \<le> 13) \<or> n = 32 \<or> n = 133 \<or> n = 160)"

definition is_digit :: "char \<Rightarrow> bool" where
  "is_digit c = (let n = (of_char c :: nat) in 48 \<le> n \<and> n \<le> 57)"

text \<open>Digits, with single underscores allowed between two digits.\<close>

fun digits_ok :: "string \<Rightarrow> bool" where
  "digits_ok [] = False"
| "digits_ok [c] = is_digit c"
| "digits_ok (c # d # cs) =
     (is_digit c \<and> (if d = CHR ''_'' then digits_ok cs else digits_ok (d # cs)))"

definition digits_value :: "string \<Rightarrow> int" where
  "digits_value s = foldl (\<lambda>acc c. 10 * acc + (int (of_char c) - 48)) 0 (filter is_digit s)"

text \<open>The message of a rejected literal holds at most 200 characters of its \<^verbatim>\<open>repr\<close>.\<close>

definition int_literal_error :: "string \<Rightarrow> py_error" where
  "int_literal_error s =
     ValueError (''invalid literal for int() with base 10: '' @ take 200 (repr_str s))"

definition int_limit_error :: "nat \<Rightarrow> py_error" where
  "int_limit_error n =
     ValueError (''Exceeds the limit (4300 digits) for integer string conversion: value has '' @
                 show_nat n @
                 '' digits; use sys.set_int_max_str_digits() to increase the limit'')"

text \<open>
  Leading blanks, an optional sign, the run of digits and underscores, trailing blanks. The
  run is checked first, then its number of digits against the interpreter's default limit of
  4300, then what follows the run.
\<close>

definition int_of_str :: "string \<Rightarrow> py_error + int" where
  "int_of_str s =
     (let t = dropWhile is_space s;
          neg = (t \<noteq> [] \<and> hd t = CHR ''-'');
          u = (if t \<noteq> [] \<and> (hd t = CHR ''-'' \<or> hd t = CHR ''+'') then tl t else t);
          run = takeWhile (\<lambda>c. is_digit c \<or> c = CHR ''_'') u;
          rest = dropWhile is_space (dropWhile (\<lambda>c. is_digit c \<or> c = CHR ''_'') u);
          n = length (filter is_digit run)
      in if \<not> digits_ok run then Inl (int_literal_error s)
         else if n > 4300 then Inl (int_limit_error n)
         else if rest \<noteq> [] then Inl (int_literal_error s)
         else Inr (if neg then - digits_value run else digits_value run))"

fun py_int :: "pyval \<Rightarrow> py_error + int" where
  "py_int (PInt i) = Inr i"
| "py_int (PStr s) = int_of_str s"

subsection \<open>\<^verbatim>\<open>str.find\<close>, slices and \<^verbatim>\<open>str.split\<close>\<close>

fun find_from :: "string \<Rightarrow> string \<Rightarrow> nat \<Rightarrow> int" where
  "find_from p [] i = (if p = [] then int i else - 1)"
| "find_from p (c # cs) i = (if prefix p (c # cs) then int i else find_from p cs (Suc i))"

definition py_find :: "string \<Rightarrow> string \<Rightarrow> int" where
  "py_find s p = find_from p s 0"

text \<open>A slice bound: a negative bound counts from the end, and both are clipped.\<close>

definition clip :: "nat \<Rightarrow> int \<Rightarrow> nat" where
  "clip n i = (if i < 0 then nat (int n + i) else min (nat i) n)"

definition slice_from :: "string \<Rightarrow> int \<Rightarrow> string" where
  "slice_from s a = drop (clip (length s) a) s"

definition slice :: "string \<Rightarrow> int \<Rightarrow> int \<Rightarrow> string" where
  "slice s a b = take (clip (length s) b - clip (length s) a) (drop (clip (length s) a) s)"

fun split_on :: "char \<Rightarrow> string \<Rightarrow> string list" where
  "split_on c [] = [[]]"
| "split_on c (x # xs) =
     (if x = c then [] # split_on c xs
      else (case split_on c xs of [] \<Rightarrow> [[x]] | w # ws \<Rightarrow> (x # w) # ws))"

section \<open>Inputs of \<^verbatim>\<open>write_score_code\<close>\<close>

text \<open>
  A column of the training \<^verbatim>\<open>DataFrame\<close>: its name, the text of its dtype, and what pandas
  computes for it in \<^verbatim>\<open>_impute_numeric\<close>: whether \<^verbatim>\<open>data[var].isin([0, 1]).all()\<close> holds,
  the text of \<^verbatim>\<open>data[var].mode()[0]\<close> (absent when the column has no mode and the index
  raises \<^verbatim>\<open>KeyError\<close>) and the text of \<^verbatim>\<open>data[var].mean()\<close>.
\<close>

record column =
  col_name :: string
  col_dtype :: string
  col_all01 :: bool
  col_mode :: "string option"
  col_mean :: string

text \<open>
  \<^verbatim>\<open>input_data\<close> is a \<^verbatim>\<open>DataFrame\<close> or, for MLFlow models, a list of records with the
  keys \<^verbatim>\<open>name\<close> and \<^verbatim>\<open>type\<close>.
\<close>

datatype input_data = DataFrame "column list" | Records "(string \<times> string) list"

fun var_names :: "input_data \<Rightarrow> string list" where
  "var_names (DataFrame cols) = map col_name cols"
| "var_names (Records rs) = map fst rs"

fun var_types :: "input_data \<Rightarrow> string list" where
  "var_types (DataFrame cols) = map col_dtype cols"
| "var_types (Records rs) = map snd rs"

text \<open>
  \<^verbatim>\<open>metrics\<close> is documented as a list of strings; \<^verbatim>\<open>_predictions_to_metrics\<close> replaces a
  list of one string by that string, and the later tests ask \<^verbatim>\<open>isinstance(metrics, str)\<close>.
\<close>

datatype metrics = MList "string list" | MStr string

fun len_metrics :: "metrics \<Rightarrow> nat" where
  "len_metrics (MList ms) = length ms"
| "len_metrics (MStr m) = length m"

text \<open>The items \<^verbatim>\<open>', '.join(metrics)\<close> iterates over: a string is iterated by character.\<close>

fun items :: "metrics \<Rightarrow> string list" where
  "items (MList ms) = ms"
| "items (MStr m) = map (\<lambda>c. [c]) m"

text \<open>\<^verbatim>\<open>f"{metrics}"\<close>.\<close>

fun fmt_metrics :: "metrics \<Rightarrow> string" where
  "fmt_metrics (MStr m) = m"
| "fmt_metrics (MList ms) = repr_list repr_str ms"

text \<open>
  The prediction threshold is a Python float. The generator only tests its truth value
  (zero is false) and interpolates its \<^verbatim>\<open>str\<close> text, so a threshold is kept as these two.
\<close>

datatype threshold = Threshold (nonzero: bool) (text_of: string)

definition default_threshold :: threshold where
  "default_threshold = Threshold True ''0.5''"

datatype session = NoSession | Viya35 | ViyaOther

record out_var =
  var_name :: string
  var_type :: string

record model_rec =
  model_id_of :: string
  outputVariables :: "out_var list"

text \<open>
  What lies outside the module: the current session, the model repository
  (\<^verbatim>\<open>mr.get_model\<close>; the files of a model after the conversion to DS2, each with the content
  \<^verbatim>\<open>mr.get\<close> returns for it) and \<^verbatim>\<open>str(Path(name).with_suffix('.zip'))\<close> of pathlib.
\<close>

record env =
  current_session :: session
  get_model :: "string \<Rightarrow> model_rec option"
  get_model_contents :: "string \<Rightarrow> (string \<times> string) list"
  with_suffix_zip :: "string option \<Rightarrow> py_error + string"

text \<open>
  The arguments of \<^verbatim>\<open>write_score_code\<close>. \<^verbatim>\<open>predict_method\<close> is the \<^verbatim>\<open>__name__\<close> of the
  method. Of \<^verbatim>\<open>kwargs\<close> the source reads the value of \<^verbatim>\<open>binary_string\<close> and the presence of
  \<^verbatim>\<open>mojo_model\<close>, \<^verbatim>\<open>binary_h2o_model\<close> and \<^verbatim>\<open>statsmodels_model\<close>; the key
  \<^verbatim>\<open>model_file_name\<close> can never be in \<^verbatim>\<open>kwargs\<close>, since it is a parameter of the function.
\<close>

record args =
  model_prefix :: string
  input_data :: input_data
  predict_method :: string
  metrics :: metrics
  model_file_name :: "string option"
  pickle_type :: "string option"
  model :: "string option"
  predict_threshold :: "threshold option"
  score_code_path :: "string option"
  target_values :: "pyval list option"
  missing_values :: bool
  score_cas :: bool
  kw_binary_string :: "string option"
  kw_mojo_model :: bool
  kw_binary_h2o_model :: bool
  kw_statsmodels_model :: bool

definition MAS_CODE_NAME :: string where
  "MAS_CODE_NAME = ''dmcas_packagescorecode.sas''"

definition CAS_CODE_NAME :: string where
  "CAS_CODE_NAME = ''dmcas_epscorecode.sas''"

section \<open>The stages of the generator\<close>

subsection \<open>\<^verbatim>\<open>_get_model_id\<close> and \<^verbatim>\<open>_check_for_invalid_variable_names\<close>\<close>

definition get_model_id :: "env \<Rightarrow> string option \<Rightarrow> py_error + string" where
  "get_model_id e m =
     (if \<not> truthy m
      then Inl (ValueError (''No model identification was provided. Python score code'' @
                            '' generation for SAS Viya 3.5 requires the model's UUID.''))
      else (case get_model e (the m) of
              None \<Rightarrow> Inl (ValueError ''No model could be found using the model argument provided.'')
            | Some r \<Rightarrow> Inr (model_id_of r)))"

definition invalid_names_message :: "string list \<Rightarrow> string" where
  "invalid_names_message invalid_variables =
     ''The following are not valid variable names: '' @ join '', '' invalid_variables @
     ''. Please confirm that all variable names can be used as Python variables. '' @
     ''E.g. `str(name).isidentifier() == True`.''"

definition check_for_invalid_variable_names :: "string list \<Rightarrow> py_error + unit" where
  "check_for_invalid_variable_names var_list =
     (let invalid_variables = filter (\<lambda>name. \<not> isidentifier name) var_list
      in if length invalid_variables > 0
         then Inl (SyntaxError (invalid_names_message invalid_variables))
         else Inr ())"

subsection \<open>\<^verbatim>\<open>_write_imports\<close>\<close>

definition or_pickle :: "string option \<Rightarrow> string" where
  "or_pickle p = (if truthy p then the p else ''pickle'')"

definition write_imports ::
  "session \<Rightarrow> string option \<Rightarrow> bool \<Rightarrow> bool \<Rightarrow> string option \<Rightarrow> string \<Rightarrow> string" where
  "write_imports sess ptype mojo_model binary_h2o_model binary_string buf =
     (let buf1 = buf @ ''import math'' @ NL @ ''import '' @ or_pickle ptype @ NL @
                 ''import pandas as pd'' @ NL @ ''import numpy as np'' @ NL @
                 ''from pathlib import Path'' @ NL @ NL;
          buf2 = (case sess of
                    ViyaOther \<Rightarrow> buf1 @ ''import settings'' @ NL @ NL
                  | Viya35 \<Rightarrow> buf1
                  | NoSession \<Rightarrow> buf1)
      in if mojo_model \<or> binary_h2o_model
         then buf2 @ ''import h2o'' @ NL @ ''import gzip'' @ NL @ ''import shutil'' @ NL @
              ''import os'' @ NL @ NL @ ''h2o.init()'' @ NL @ NL
         else if truthy binary_string
         then buf2 @ ''import codecs'' @ NL @ NL @ ''binary_string = '' @ DQ @
              fmt_opt binary_string @ DQ @ NL @ ''model = '' @ or_pickle ptype @
              ''.loads(codecs.decode(binary_string.encode(), '' @ DQ @ ''base64'' @ DQ @ ''))'' @
              NL @ NL
         else buf2)"

subsection \<open>\<^verbatim>\<open>_viya35_model_load\<close> and \<^verbatim>\<open>_viya4_model_load\<close>\<close>

text \<open>
  The parameters are in the order of the signatures:
  \<^verbatim>\<open>(model_id, model_file_name, pickle_type=None, mojo_model=False, binary_h2o_model=False)\<close>
  and \<^verbatim>\<open>(model_file_name, pickle_type=None, mojo_model=False, binary_h2o_model=False)\<close>.
  The value is the exception or the returned string, with the buffer.
\<close>

definition viya35_model_load ::
  "env \<Rightarrow> string \<Rightarrow> string option \<Rightarrow> string option \<Rightarrow> bool \<Rightarrow> bool \<Rightarrow> string
     \<Rightarrow> (py_error + string) \<times> string" where
  "viya35_model_load e mid file_name ptype mojo_model binary_h2o_model buf =
     (if mojo_model then
        (case with_suffix_zip e file_name of
           Inl err \<Rightarrow> (Inl err, buf)
         | Inr zname \<Rightarrow>
             (Inr (sp 8 @ ''model = h2o.import_mojo(model_path / '' @ DQ @ zname @ DQ @ '')''),
              buf @ ''model_path = Path('' @ DQ @ ''/models/resources/viya/'' @ mid @ DQ @ '')'' @
              NL @ ''with gzip.open(model_path / '' @ DQ @ fmt_opt file_name @ DQ @ '', '' @ DQ @
              ''r'' @ DQ @ '') as fileIn, open(model_path / '' @ DQ @ zname @ DQ @ '', '' @ DQ @
              ''wb'' @ DQ @ '') as fileOut:'' @ NL @ sp 4 @ ''shutil.copyfileobj(fileIn, fileOut)'' @
              NL @ ''os.chmod(model_path / '' @ DQ @ zname @ DQ @ '', 0o777)'' @ NL @
              ''model = h2o.import_mojo(model_path / '' @ DQ @ zname @ DQ @ '')'' @ NL @ NL))
      else if binary_h2o_model then
        (Inr (''        model = h2o.load(Path('' @ DQ @ ''/models/resources/viya/'' @ mid @ ''/'' @
              fmt_opt file_name @ DQ @ ''))''),
         buf @ ''model = h2o.load(Path('' @ DQ @ ''/models/resources/viya/'' @ mid @ ''/'' @
         fmt_opt file_name @ DQ @ ''))'' @ NL @ NL)
      else
        (Inr (sp 8 @ ''model_path = Path('' @ DQ @ ''/models/resources/viya/'' @ mid @ DQ @ '')'' @
              NL @ sp 8 @ ''with open(model_path / '' @ DQ @ fmt_opt file_name @ DQ @ '', '' @ DQ @
              ''rb'' @ DQ @ '') as pickle_model:'' @ NL @ sp 12 @ ''model = '' @ or_pickle ptype @
              ''.load(pickle_model)''),
         buf @ ''model_path = Path('' @ DQ @ ''/models/resources/viya/'' @ mid @ DQ @ '')'' @ NL @
         ''with open(model_path / '' @ DQ @ fmt_opt file_name @ DQ @ '', '' @ DQ @ ''rb'' @ DQ @
         '') as pickle_model:'' @ NL @ sp 4 @ ''model = '' @ or_pickle ptype @
         ''.load(pickle_model)'' @ NL @ NL))"

definition viya4_model_load ::
  "env \<Rightarrow> string option \<Rightarrow> string option \<Rightarrow> bool \<Rightarrow> bool \<Rightarrow> string
     \<Rightarrow> (py_error + string) \<times> string" where
  "viya4_model_load e file_name ptype mojo_model binary_h2o_model buf =
     (if mojo_model then
        (case with_suffix_zip e file_name of
           Inl err \<Rightarrow> (Inl err, buf)
         | Inr zname \<Rightarrow>
             (Inr (sp 8 @ ''model = h2o.import_mojo(Path(settings.pickle_path) / '' @ DQ @ zname @
                   DQ @ '')'' @ NL @ NL),
              buf @ ''with gzip.open(Path(settings.pickle_path) / '' @ DQ @ ''{model_file_name}'' @
              DQ @ '', '' @ DQ @ ''r'' @ DQ @ '') as fileIn, open(Path(settings.pickle_path) / '' @
              DQ @ zname @ DQ @ '', '' @ DQ @ ''wb'' @ DQ @ '') as fileOut:'' @ NL @ sp 4 @
              ''shutil.copyfileobj(fileIn, fileOut)'' @ NL @
              ''os.chmod(Path(settings.pickle_path) / '' @ DQ @ zname @ DQ @ '', 0o777)'' @ NL @
              ''model = h2o.import_mojo(Path(settings.pickle_path) / '' @ DQ @ zname @ DQ @ '')'' @
              NL @ NL))
      else if binary_h2o_model then
        (Inr (sp 8 @ ''model = h2o.load(Path(settings.pickle_path))'' @ NL @ NL),
         buf @ ''model = h2o.load(Path(settings.pickle_path))'' @ NL @ NL)
      else
        (Inr (sp 8 @ ''with open(Path(settings.pickle_path) / '' @ DQ @ fmt_opt file_name @ DQ @
              '', '' @ DQ @ ''rb'' @ DQ @ '') as pickle_model:'' @ NL @ ''    '' @ sp 12 @
              ''model = '' @ or_pickle ptype @ ''.load(pickle_model)'' @ NL @ NL),
         buf @ ''with open(Path(settings.pickle_path) / '' @ DQ @ fmt_opt file_name @ DQ @ '', '' @
         DQ @ ''rb'' @ DQ @ '') as pickle_model:'' @ NL @ ''    '' @ ''model = '' @
         or_pickle ptype @ ''.load(pickle_model)'' @ NL @ NL))"

subsection \<open>\<^verbatim>\<open>_impute_missing_values\<close>, \<^verbatim>\<open>_impute_numeric\<close> and \<^verbatim>\<open>_impute_char\<close>\<close>

text \<open>\<^verbatim>\<open>any(t in dtype for t in ["int", "float"])\<close>.\<close>

definition is_numeric :: "string \<Rightarrow> bool" where
  "is_numeric dtype = (sublist ''int'' dtype \<or> sublist ''float'' dtype)"

text \<open>
  \<^verbatim>\<open>data[var]\<close> raises \<^verbatim>\<open>TypeError\<close> when \<^verbatim>\<open>data\<close> is a list of records, and
  \<^verbatim>\<open>KeyError\<close> when the frame has no such column. When several columns of the frame bear
  the name, \<^verbatim>\<open>data[var]\<close> is a frame, \<^verbatim>\<open>.isin([0, 1]).all()\<close> is a Series and the \<^verbatim>\<open>if\<close>
  raises \<^verbatim>\<open>ValueError\<close>.
\<close>

definition ambiguous_message :: string where
  "ambiguous_message =
     ''The truth value of a Series is ambiguous. '' @
     ''Use a.empty, a.bool(), a.item(), a.any() or a.all().''"

definition impute_numeric :: "input_data \<Rightarrow> string \<Rightarrow> string \<Rightarrow> (py_error + unit) \<times> string" where
  "impute_numeric data var buf =
     (case data of
        Records rs \<Rightarrow> (Inl TypeError, buf)
      | DataFrame cols \<Rightarrow>
          (case filter (\<lambda>c. col_name c = var) cols of
             [] \<Rightarrow> (Inl KeyError, buf)
           | [c] \<Rightarrow>
               if col_all01 c then
                 (case col_mode c of
                    None \<Rightarrow> (Inl KeyError, buf)
                  | Some m \<Rightarrow>
                      (Inr (),
                       buf @ sp 4 @ ''try:'' @ NL @ sp 8 @ ''if math.isnan('' @ var @ ''):'' @ NL @
                       sp 12 @ var @ '' = '' @ m @ NL @
                       sp 4 @ ''except TypeError:'' @ NL @ sp 8 @ var @ '' = '' @ m @ NL))
               else
                 (Inr (),
                  buf @ sp 4 @ ''try:'' @ NL @ sp 8 @ ''if math.isnan('' @ var @ ''):'' @ NL @
                  sp 12 @ var @ '' = '' @ col_mean c @ NL @
                  sp 4 @ ''except TypeError'' @ NL @ sp 8 @ var @ '' = '' @ col_mean c @ NL)
           | c # d # cs \<Rightarrow> (Inl (ValueError ambiguous_message), buf)))"

text \<open>
  The two texts that \<^verbatim>\<open>_impute_numeric\<close> appends for a column \<open>c\<close>, by name: the one with
  the mean, for a column that holds other values than 0 and 1, and the one with the mode.
\<close>

definition mean_block :: "column \<Rightarrow> string" where
  "mean_block c =
     sp 4 @ ''try:'' @ NL @ sp 8 @ ''if math.isnan('' @ col_name c @ ''):'' @ NL @
     sp 12 @ col_name c @ '' = '' @ col_mean c @ NL @
     sp 4 @ ''except TypeError'' @ NL @ sp 8 @ col_name c @ '' = '' @ col_mean c @ NL"

definition mode_block :: "column \<Rightarrow> string \<Rightarrow> string" where
  "mode_block c m =
     sp 4 @ ''try:'' @ NL @ sp 8 @ ''if math.isnan('' @ col_name c @ ''):'' @ NL @
     sp 12 @ col_name c @ '' = '' @ m @ NL @
     sp 4 @ ''except TypeError:'' @ NL @ sp 8 @ col_name c @ '' = '' @ m @ NL"

definition impute_char :: "string \<Rightarrow> string \<Rightarrow> string" where
  "impute_char var buf =
     buf @ sp 4 @ ''try:'' @ NL @ sp 8 @ var @ '' = '' @ var @ ''.strip()'' @ NL @ sp 4 @
     ''except AttributeError:'' @ NL @ sp 8 @ var @ '' = '' @ DQ @ DQ @ NL"

text \<open>The loop over \<^verbatim>\<open>zip(var_list, dtype_list)\<close>; it stops at the first exception.\<close>

fun impute_loop :: "input_data \<Rightarrow> (string \<times> string) list \<Rightarrow> string \<Rightarrow> (py_error + unit) \<times> string" where
  "impute_loop data [] buf = (Inr (), buf)"
| "impute_loop data ((var, dtype) # rest) buf =
     (if is_numeric dtype then
        (case impute_numeric data var buf of
           (Inl err, buf') \<Rightarrow> (Inl err, buf')
         | (Inr u, buf') \<Rightarrow> impute_loop data rest buf')
      else impute_loop data rest (impute_char var buf))"

definition impute_missing_values ::
  "input_data \<Rightarrow> string list \<Rightarrow> string list \<Rightarrow> string \<Rightarrow> (py_error + unit) \<times> string" where
  "impute_missing_values data var_list dtype_list buf =
     (case impute_loop data (zip var_list dtype_list) buf of
        (Inl err, buf') \<Rightarrow> (Inl err, buf')
      | (Inr u, buf') \<Rightarrow> (Inr (), buf' @ NL))"

subsection \<open>\<^verbatim>\<open>_predict_method\<close>\<close>

definition column_names :: "string list \<Rightarrow> string" where
  "column_names var_list = join '', '' (map (\<lambda>col. DQ @ col @ DQ) var_list)"

definition column_types :: "string list \<Rightarrow> string list \<Rightarrow> string list" where
  "column_types var_list dtype_list =
     map (\<lambda>(var, dtype). DQ @ var @ DQ @ '' : '' @ DQ @
            (if is_numeric dtype then ''numeric'' else ''string'') @ DQ)
         (zip var_list dtype_list)"

text \<open>
  \<^verbatim>\<open>dtype_list\<close> is \<^verbatim>\<open>None\<close> unless the caller passes it; \<^verbatim>\<open>if dtype_list:\<close> is false for
  \<^verbatim>\<open>None\<close> and for the empty list.
\<close>

definition predict_method_stage ::
  "string \<Rightarrow> string list \<Rightarrow> string list option \<Rightarrow> bool \<Rightarrow> string \<Rightarrow> string" where
  "predict_method_stage method var_list dtype_list statsmodels_model buf =
     (if dtype_list \<noteq> None \<and> dtype_list \<noteq> Some [] then
        buf @ sp 4 @ ''input_array = pd.DataFrame([['' @ join '', '' var_list @ '']],'' @ NL @
        sp 31 @ ''columns=['' @ column_names var_list @ ''],'' @ NL @ sp 31 @ ''dtype=float,'' @
        NL @ sp 31 @ ''index=[0])'' @ NL @ sp 4 @ ''column_types = {'' @
        repr_list repr_str (column_types var_list (the dtype_list)) @ ''}'' @ NL @ sp 4 @
        ''h2o_array = h2o.H2OFrame(input_array, column_types=column_types)'' @ NL @ sp 4 @
        ''prediction = model.'' @ method @ ''(h2o_array)'' @ NL @ sp 4 @
        ''prediction = h2o.as_list(prediction, use_pandas=False)'' @ NL
      else if statsmodels_model then
        buf @ sp 4 @ ''inputArray = pd.DataFrame([[1.0, '' @ join '', '' var_list @ '']],'' @ NL @
        sp 29 @ ''columns=['' @ DQ @ ''const'' @ DQ @ '', '' @ column_names var_list @ ''],'' @
        NL @ sp 29 @ ''dtype=float)'' @ NL @ sp 4 @ ''prediction = model.'' @ method @
        ''(input_array)'' @ NL
      else
        buf @ sp 4 @ ''input_array = pd.DataFrame([['' @ join '', '' var_list @ '']],'' @ NL @
        sp 30 @ ''columns=['' @ column_names var_list @ ''],'' @ NL @ sp 30 @ ''dtype=float)'' @
        NL @ sp 4 @ ''prediction = model.'' @ method @ ''(input_array)'' @ NL)"

subsection \<open>\<^verbatim>\<open>_no_targets_no_thresholds\<close>, \<^verbatim>\<open>_binary_target\<close>, \<^verbatim>\<open>_nonbinary_targets\<close>\<close>

text \<open>\<^verbatim>\<open>len(metrics) == 1 or isinstance(metrics, str)\<close>.\<close>

fun single_metric :: "metrics \<Rightarrow> bool" where
  "single_metric (MStr m) = True"
| "single_metric (MList ms) = (length ms = 1)"

text \<open>
  The lines \<^verbatim>\<open>metrics[i + 1] = prediction[i + 1]\<close> of the loops over
  \<^verbatim>\<open>range(len(metrics) - 1)\<close>; \<open>pre\<close> is the text before the index.
\<close>

definition probability_lines :: "string \<Rightarrow> string list \<Rightarrow> string" where
  "probability_lines pre ms =
     concat (map (\<lambda>i. sp 4 @ ms ! (i + 1) @ '' = '' @ pre @ show_nat (i + 1) @ '']'' @ NL)
                 [0 ..< length ms - 1])"

definition no_targets_no_thresholds :: "metrics \<Rightarrow> bool \<Rightarrow> string \<Rightarrow> (py_error + unit) \<times> string" where
  "no_targets_no_thresholds mets h2o_model buf =
     (if single_metric mets then
        (if h2o_model
         then (Inr (), buf @ sp 4 @ fmt_metrics mets @ '' = prediction[1][0]'' @ NL @ NL @ sp 4 @
                       ''return '' @ fmt_metrics mets)
         else (Inr (), buf @ sp 4 @ fmt_metrics mets @ '' = prediction'' @ NL @ NL @ sp 4 @
                       ''return '' @ fmt_metrics mets))
      else
        (case mets of
           MList (m0 # ms) \<Rightarrow>
             (if h2o_model
              then (Inr (), buf @ sp 4 @ m0 @ '' = prediction[1][0]'' @ NL @
                            probability_lines ''prediction[1]['' (m0 # ms) @
                            NL @ sp 4 @ ''return '' @ join '', '' (m0 # ms))
              else (Inr (), buf @ sp 4 @ m0 @ '' = prediction[0]'' @ NL @
                            probability_lines ''prediction['' (m0 # ms) @
                            NL @ sp 4 @ ''return '' @ join '', '' (m0 # ms)))
         | _ \<Rightarrow> (Inl IndexError, buf)))"

definition binary_target ::
  "metrics \<Rightarrow> threshold option \<Rightarrow> bool \<Rightarrow> string \<Rightarrow> (py_error + unit) \<times> string" where
  "binary_target mets thr h2o_model buf =
     (let t = (case thr of
                 None \<Rightarrow> default_threshold
               | Some v \<Rightarrow> if nonzero v then v else default_threshold);
          pred = (if h2o_model then ''prediction[1][2]'' else ''prediction'')
      in if single_metric mets then
           (Inr (), buf @ sp 4 @ ''if '' @ pred @ '' > '' @ text_of t @ '':'' @ NL @ sp 8 @
                    fmt_metrics mets @ '' = 1'' @ NL @ sp 4 @ ''else:'' @ NL @ sp 8 @
                    fmt_metrics mets @ '' = 0'' @ NL @ NL @ ''return '' @ fmt_metrics mets)
         else if len_metrics mets = 2 then
           (Inr (), buf @ sp 4 @ ''if '' @ pred @ '' > '' @ text_of t @ '':'' @ NL @ sp 8 @
                    hd (items mets) @ '' = 1'' @ NL @ sp 4 @ ''else:'' @ NL @ sp 8 @
                    hd (items mets) @ '' = 0'' @ NL @ NL @ ''return '' @ hd (items mets) @
                    '', '' @ pred)
         else (Inl (ValueError ''Too many metrics were provided for a binary model.''), buf))"

definition nonbinary_message :: string where
  "nonbinary_message =
     ''An invalid number of target values were provided with respect to the size of the '' @
     ''metrics provided. The function is expecting metrics to be one, the same length'' @
     ''as the target values list, or one more than the length'' @
     ''of the target values list.''"

definition argmax_index :: "bool \<Rightarrow> string" where
  "argmax_index h2o_model =
     (if h2o_model then ''prediction[1][1:].index(max(prediction[1][1:]))''
      else ''prediction.index(max(prediction))'')"

definition nonbinary_targets ::
  "metrics \<Rightarrow> pyval list \<Rightarrow> bool \<Rightarrow> string \<Rightarrow> (py_error + unit) \<times> string" where
  "nonbinary_targets mets tvs h2o_model buf =
     (if single_metric mets then
        (Inr (), buf @ sp 4 @ ''target_values = '' @ repr_list repr_val tvs @ NL @ sp 4 @
                 fmt_metrics mets @ '' = target_values['' @ argmax_index h2o_model @ '']'' @ NL @
                 sp 4 @ ''return '' @ fmt_metrics mets)
      else if len_metrics mets = length tvs \<or> len_metrics mets = length tvs + 1 then
        (let ms = items mets;
             buf1 = buf @ sp 4 @ ''target_values = '' @ repr_list repr_val tvs @ NL @
                    probability_lines (if h2o_model then ''prediction[1]['' else ''prediction['') ms
         in if length ms = length tvs + 1
            then (Inr (), buf1 @ sp 4 @ hd ms @ '' = target_values['' @ argmax_index h2o_model @
                          '']'' @ NL @ sp 4 @ ''return '' @ join '', '' ms)
            else (Inr (), buf1 @ sp 4 @ ''return '' @ join '', '' ms))
      else (Inl (ValueError nonbinary_message), buf))"

subsection \<open>\<^verbatim>\<open>_predictions_to_metrics\<close>\<close>

definition threshold_message :: string where
  "threshold_message =
     ''A threshold was provided to interpret the prediction results, however '' @
     ''a target value was not, therefore, a valid output cannot be generated.''"

definition one_target_message :: string where
  "one_target_message =
     ''For non-binary target variables, please provide at least two target values.''"

text \<open>The truth values of \<^verbatim>\<open>target_values\<close> and \<^verbatim>\<open>predict_threshold\<close>.\<close>

fun targets_given :: "pyval list option \<Rightarrow> bool" where
  "targets_given None = False"
| "targets_given (Some tvs) = (tvs \<noteq> [])"

fun threshold_given :: "threshold option \<Rightarrow> bool" where
  "threshold_given None = False"
| "threshold_given (Some v) = nonzero v"

text \<open>\<^verbatim>\<open>if len(metrics) == 1 and isinstance(metrics, list): metrics = metrics[0]\<close>.\<close>

fun flatten :: "metrics \<Rightarrow> metrics" where
  "flatten (MList [m]) = MStr m"
| "flatten mets = mets"

definition predictions_to_metrics ::
  "metrics \<Rightarrow> pyval list option \<Rightarrow> threshold option \<Rightarrow> bool \<Rightarrow> string
     \<Rightarrow> (py_error + unit) \<times> string" where
  "predictions_to_metrics mets tvs thr h2o_model buf =
     (if \<not> (targets_given tvs \<or> threshold_given thr) then
        no_targets_no_thresholds (flatten mets) h2o_model buf
      else if \<not> targets_given tvs \<and> threshold_given thr then
        (Inl (ValueError threshold_message), buf)
      else if length (the tvs) > 1 then
        nonbinary_targets (flatten mets) (the tvs) h2o_model buf
      else
        (case py_int (hd (the tvs)) of
           Inl err \<Rightarrow> (Inl err, buf)
         | Inr i \<Rightarrow>
             if i = 1 then binary_target (flatten mets) thr h2o_model buf
             else (Inl (ValueError one_target_message), buf)))"

section \<open>\<^verbatim>\<open>convert_mas_to_cas\<close>\<close>

text \<open>
  \<^verbatim>\<open>pattern.sub\<close> for a pattern that is an alternation of escaped literals: the text is read
  from the left; where a key matches, the first such key in the order of the dictionary is
  taken, its value is written and the scan goes on behind the match; elsewhere the character
  is copied. All keys of the source are non-empty.
\<close>

definition match_at :: "(string \<times> string) list \<Rightarrow> string \<Rightarrow> (string \<times> string) option" where
  "match_at rs s = find (\<lambda>kv. fst kv \<noteq> [] \<and> prefix (fst kv) s) rs"

function re_sub :: "(string \<times> string) list \<Rightarrow> string \<Rightarrow> string" where
  "re_sub rs [] = []"
| "re_sub rs (c # cs) =
     (case match_at rs (c # cs) of
        Some kv \<Rightarrow> snd kv @ re_sub rs (drop (length (fst kv)) (c # cs))
      | None \<Rightarrow> c # re_sub rs cs)"
  by pat_completeness auto
termination
proof (relation "measure (\<lambda>(rs, s). length s)")
  show "wf (measure (\<lambda>(rs, s). length s))" by simp
next
  fix rs :: "(string \<times> string) list" and c cs kv
  assume "match_at rs (c # cs) = Some kv"
  then have "fst kv \<noteq> []"
    by (auto simp: match_at_def find_Some_iff)
  then show "((rs, drop (length (fst kv)) (c # cs)), (rs, c # cs)) \<in> measure (\<lambda>(rs, s). length s)"
    by (cases "fst kv") auto
next
  fix rs :: "(string \<times> string) list" and c :: char and cs :: string
  show "((rs, cs), (rs, c # cs)) \<in> measure (\<lambda>(rs, s). length s)" by simp
qed

text \<open>One step of the loop over \<^verbatim>\<open>model["outputVariables"]\<close>.\<close>

definition add_dcl :: "string \<Rightarrow> out_var \<Rightarrow> string" where
  "add_dcl output_string v =
     output_string @ ''dcl '' @
     (if var_type v = ''string'' then ''varchar(100) '' else ''double '') @ var_name v @ '';'' @ NL"

definition package_header :: string where
  "package_header = ''package pythonScore / overwrite=yes;''"

definition int_declaration :: string where
  "int_declaration = ''dcl int resultCode revision;''"

definition endpackage :: string where
  "endpackage = ''endpackage;''"

definition input_string :: "string \<Rightarrow> string" where
  "input_string mas_code =
     (let start = py_find mas_code ''score('';
          finish = py_find (slice_from mas_code start) '');'';
          score_vars = slice mas_code (start + 6) (start + finish)
      in join '' '' (filter (\<lambda>x. x \<noteq> ''double'' \<and> x \<noteq> ''in_out'' \<and> x \<noteq> ''varchar(100)'')
                            (split_on (CHR '' '') score_vars)))"

definition end_block :: "string \<Rightarrow> string" where
  "end_block mas_code =
     ''method run();'' @ NL @ sp 4 @ ''set SASEP.IN;'' @ NL @ sp 4 @ ''score('' @
     input_string mas_code @ '');'' @ NL @ ''end;'' @ NL @ ''enddata;''"

definition replace_strings :: "out_var list \<Rightarrow> string \<Rightarrow> (string \<times> string) list" where
  "replace_strings out_vars mas_code =
     [(package_header, ''data sasep.out;''),
      (int_declaration, ''dcl double resultCode revision;'' @ NL @ foldl add_dcl [] out_vars),
      (endpackage, end_block mas_code)]"

text \<open>\<^verbatim>\<open>mr.get_model\<close> returning \<^verbatim>\<open>None\<close> makes the subscript raise \<^verbatim>\<open>TypeError\<close>.\<close>

definition convert_mas_to_cas :: "env \<Rightarrow> string \<Rightarrow> string \<Rightarrow> py_error + string" where
  "convert_mas_to_cas e mas_code m =
     (case get_model e m of
        None \<Rightarrow> Inl TypeError
      | Some r \<Rightarrow> Inr (re_sub (replace_strings (outputVariables r) mas_code) mas_code))"

text \<open>
  The wrapper code of the SAS Micro Analytic Service holds the package header, the
  declaration of \<^verbatim>\<open>resultCode\<close> and \<^verbatim>\<open>endpackage;\<close>, in this order and once each.
  \<open>marker_free seg rest\<close> says that none of the three begins at a position of \<open>seg\<close> in the
  text \<open>seg @ rest\<close>.
\<close>

fun marker_free :: "string \<Rightarrow> string \<Rightarrow> bool" where
  "marker_free [] rest = True"
| "marker_free (x # xs) rest =
     (\<not> prefix package_header (x # xs @ rest) \<and> \<not> prefix int_declaration (x # xs @ rest) \<and>
      \<not> prefix endpackage (x # xs @ rest) \<and> marker_free xs rest)"

section \<open>\<^verbatim>\<open>write_score_code\<close>\<close>

text \<open>
  The model identifier: looked up for a SAS Viya 3.5 session, \<^verbatim>\<open>None\<close> otherwise; without a
  session the \<^verbatim>\<open>AttributeError\<close> is caught and a warning is issued.
\<close>

definition resolve_model_id :: "env \<Rightarrow> string option \<Rightarrow> py_error + string option" where
  "resolve_model_id e m =
     (case current_session e of
        Viya35 \<Rightarrow> (case get_model_id e m of Inl err \<Rightarrow> Inl err | Inr i \<Rightarrow> Inr (Some i))
      | ViyaOther \<Rightarrow> Inr None
      | NoSession \<Rightarrow> Inr None)"

definition returned_load :: "(py_error + string) \<times> string \<Rightarrow> (py_error + string option) \<times> string" where
  "returned_load r = (case r of (Inl err, buf) \<Rightarrow> (Inl err, buf) | (Inr s, buf) \<Rightarrow> (Inr (Some s), buf))"

text \<open>
  Lines 160 to 178 of the source: the model load. The two load helpers are called as the
  source calls them, with \<^verbatim>\<open>pickle_type\<close> before \<^verbatim>\<open>model_file_name\<close>.
  With \<^verbatim>\<open>binary_string\<close> in \<^verbatim>\<open>kwargs\<close> the source has set \<^verbatim>\<open>model_file_name\<close> to
  \<^verbatim>\<open>None\<close> before.
\<close>

definition model_load_stage ::
  "env \<Rightarrow> args \<Rightarrow> string option \<Rightarrow> string \<Rightarrow> (py_error + string option) \<times> string" where
  "model_load_stage e a model_id buf1 =
     (let file_name = (if kw_binary_string a \<noteq> None then None else model_file_name a);
          binary_string = kw_binary_string a
      in if truthy model_id \<and> \<not> truthy binary_string then
           returned_load (viya35_model_load e (the model_id) (pickle_type a) file_name
                            (kw_mojo_model a) (kw_binary_h2o_model a) buf1)
         else if \<not> truthy binary_string then
           returned_load (viya4_model_load e (pickle_type a) file_name
                            (kw_mojo_model a) (kw_binary_h2o_model a) buf1)
         else (Inr None, buf1))"

text \<open>
  Lines 180 to 192: the header of the score function and, when a load helper returned a
  string, the guarded second load.
\<close>

definition function_header :: "args \<Rightarrow> string option \<Rightarrow> string \<Rightarrow> string" where
  "function_header a model_load buf2 =
     (let buf3 = buf2 @ ''def score'' @ model_prefix a @ ''('' @
                 join '', '' (var_names (input_data a)) @ ''):'' @ NL @ sp 4 @ DQ @
                 ''Output: '' @ join '', '' (items (metrics a)) @ DQ @ NL @ NL
      in if truthy model_load
         then buf3 @ sp 4 @ ''try:'' @ NL @ sp 8 @ ''global model'' @ NL @ sp 4 @
              ''except NameError:'' @ NL @ the model_load
         else buf3)"

text \<open>
  Lines 118 to 195 of the source: validation, the model identifier, the imports, the model
  load, the header of the score function and the imputation. The value is the model
  identifier.
\<close>

definition prepare :: "env \<Rightarrow> args \<Rightarrow> string \<Rightarrow> (py_error + string option) \<times> string" where
  "prepare e a buf =
     (let input_var_list = var_names (input_data a);
          input_dtypes_list = var_types (input_data a)
      in case check_for_invalid_variable_names input_var_list of
           Inl err \<Rightarrow> (Inl err, buf)
         | Inr u \<Rightarrow>
      (case resolve_model_id e (model a) of
           Inl err \<Rightarrow> (Inl err, buf)
         | Inr model_id \<Rightarrow>
      (case model_load_stage e a model_id
              (write_imports (current_session e) (pickle_type a) (kw_mojo_model a)
                 (kw_binary_h2o_model a) (kw_binary_string a) buf) of
            (Inl err, buf2) \<Rightarrow> (Inl err, buf2)
          | (Inr model_load, buf2) \<Rightarrow>
      (case (if missing_values a
             then impute_missing_values (input_data a) input_var_list input_dtypes_list
                    (function_header a model_load buf2)
             else (Inr (), function_header a model_load buf2)) of
            (Inl err, buf5) \<Rightarrow> (Inl err, buf5)
          | (Inr u, buf5) \<Rightarrow> (Inr model_id, buf5)))))"

text \<open>
  Lines 197 to 218. Both branches of the source call \<^verbatim>\<open>_predict_method\<close> and then
  \<^verbatim>\<open>_predictions_to_metrics\<close>; they differ in the arguments: with an H2O model the dtypes
  are passed and \<^verbatim>\<open>h2o_model=True\<close>, otherwise the \<^verbatim>\<open>statsmodels_model\<close> flag is passed.
\<close>

definition h2o_call :: "args \<Rightarrow> bool" where
  "h2o_call a = (kw_mojo_model a \<or> kw_binary_h2o_model a)"

definition predict_call :: "args \<Rightarrow> string \<Rightarrow> string" where
  "predict_call a buf =
     (if h2o_call a
      then predict_method_stage (predict_method a) (var_names (input_data a))
             (Some (var_types (input_data a))) False buf
      else predict_method_stage (predict_method a) (var_names (input_data a))
             None (kw_statsmodels_model a) buf)"

definition generate :: "env \<Rightarrow> args \<Rightarrow> string \<Rightarrow> (py_error + string option) \<times> string" where
  "generate e a buf =
     (case prepare e a buf of
        (Inl err, buf5) \<Rightarrow> (Inl err, buf5)
      | (Inr model_id, buf5) \<Rightarrow>
          (case predictions_to_metrics (metrics a) (target_values a) (predict_threshold a)
                  (h2o_call a) (predict_call a buf5) of
             (Inl err, buf6) \<Rightarrow> (Inl err, buf6)
           | (Inr u, buf6) \<Rightarrow> (Inr model_id, buf6)))"

text \<open>
  The loop over the files of the model: the first file named \<^verbatim>\<open>score.sas\<close> gives
  \<^verbatim>\<open>mas_code\<close> and \<^verbatim>\<open>cas_code\<close>; when there is none the two names stay unbound.
\<close>

fun score_sas :: "env \<Rightarrow> string \<Rightarrow> (string \<times> string) list \<Rightarrow> py_error + (string \<times> string) option" where
  "score_sas e mid [] = Inr None"
| "score_sas e mid ((name, content) # files) =
     (if name = ''score.sas'' then
        (case convert_mas_to_cas e content mid of
           Inl err \<Rightarrow> Inl err
         | Inr cas_code \<Rightarrow> Inr (Some (content, cas_code)))
      else score_sas e mid files)"

text \<open>
  The result of the call: the dictionary it returns, or the files it writes under
  \<^verbatim>\<open>score_code_path\<close> (it then returns \<^verbatim>\<open>None\<close>). The uploads to the repository change
  nothing the function reads back and are left out.
\<close>

datatype outcome = Returned "(string \<times> string) list" | Written "(string \<times> string) list"

definition write_score_code :: "env \<Rightarrow> args \<Rightarrow> string \<Rightarrow> (py_error + outcome) \<times> string" where
  "write_score_code e a buf =
     (case generate e a buf of
        (Inl err, buf') \<Rightarrow> (Inl err, buf')
      | (Inr model_id, buf') \<Rightarrow>
          (case (if truthy model_id \<and> score_cas a
                 then score_sas e (the model_id) (get_model_contents e (the model_id))
                 else Inr None) of
             Inl err \<Rightarrow> (Inl err, buf')
           | Inr sas \<Rightarrow>
               (let py = (model_prefix a @ ''_score.py'', buf')
                in if truthy model_id \<and> score_cas a then
                     (case sas of
                        None \<Rightarrow> (Inl UnboundLocalError, buf')
                      | Some (mas_code, cas_code) \<Rightarrow>
                          (Inr ((if truthy (score_code_path a) then Written else Returned)
                                  [py, (MAS_CODE_NAME, mas_code), (CAS_CODE_NAME, cas_code)]),
                           buf'))
                   else
                     (Inr ((if truthy (score_code_path a) then Written else Returned) [py]),
                      buf'))))"

section \<open>Sample inputs\<close>

text \<open>No session, an empty repository, and a pathlib that only knows one file name.\<close>

definition no_session_env :: env where
  "no_session_env =
     \<lparr> current_session = NoSession,
       get_model = (\<lambda>m. None),
       get_model_contents = (\<lambda>m. []),
       with_suffix_zip = (\<lambda>n. if n = Some ''Tree.mojo'' then Inr ''Tree.zip'' else Inl TypeError) \<rparr>"

definition hmeq :: input_data where
  "hmeq =
     DataFrame
       [\<lparr> col_name = ''LOAN'', col_dtype = ''int64'', col_all01 = False,
          col_mode = Some ''15000'', col_mean = ''18607.97'' \<rparr>,
        \<lparr> col_name = ''MORTDUE'', col_dtype = ''float64'', col_all01 = False,
          col_mode = Some ''42000.0'', col_mean = ''73760.82'' \<rparr>]"

text \<open>
  Predictors \<^verbatim>\<open>["LOAN", "MORTDUE"]\<close>, metrics \<^verbatim>\<open>["BAD"]\<close>, target values \<^verbatim>\<open>[1, 0]\<close>, no
  threshold.
\<close>

definition hmeq_args :: args where
  "hmeq_args =
     \<lparr> model_prefix = ''Tree'', input_data = hmeq, predict_method = ''predict_proba'',
       metrics = MList [''BAD''], model_file_name = Some ''Tree.pickle'',
       pickle_type = Some ''pickle'', model = None, predict_threshold = None,
       score_code_path = None, target_values = Some [PInt 1, PInt 0],
       missing_values = False, score_cas = True, kw_binary_string = None,
       kw_mojo_model = False, kw_binary_h2o_model = False, kw_statsmodels_model = False \<rparr>"

definition mlflow_inputs :: input_data where
  "mlflow_inputs =
     Records [(''LOAN'', ''double''), (''2nd mortgage'', ''double''), (''JOB'', ''string''),
              ([], ''string'')]"

text \<open>
  A repository with one model, whose outputs are a probability and a classification, and the
  wrapper code of that model.
\<close>

definition repository_env :: env where
  "repository_env =
     \<lparr> current_session = Viya35,
       get_model = (\<lambda>m. if m = ''Tree'' then
                      Some \<lparr> model_id_of = ''0a1b2c'',
                             outputVariables =
                               [\<lparr> var_name = ''EM_EVENTPROBABILITY'', var_type = ''decimal'' \<rparr>,
                                \<lparr> var_name = ''EM_CLASSIFICATION'', var_type = ''string'' \<rparr>] \<rparr>
                    else None),
       get_model_contents = (\<lambda>m. []),
       with_suffix_zip = (\<lambda>n. Inl TypeError) \<rparr>"

definition mas_declarations :: string where
  "mas_declarations =
     NL @ ''dcl package pymas pm;'' @ NL @ ''dcl varchar(32767) character set utf8 pypgm;'' @ NL"

definition mas_methods :: string where
  "mas_methods =
     NL @ NL @ ''method score(double LOAN, double MORTDUE, in_out double resultCode, '' @
     ''in_out double EM_EVENTPROBABILITY, in_out varchar(100) EM_CLASSIFICATION);'' @ NL @
     sp 4 @ ''resultCode = revision = 0;'' @ NL @ ''end;'' @ NL @ NL"

section \<open>The metric mapping inside the call\<close>

text \<open>
  The buffer of a call is the buffer of its generation part, and the metric mapping runs on
  the buffer that \<^verbatim>\<open>_predict_method\<close> leaves.
\<close>

lemma snd_write_score_code: "snd (write_score_code e a buf) = snd (generate e a buf)"
  by (simp add: write_score_code_def Let_def split: prod.splits sum.splits option.splits)

lemma write_score_code_error:
  "generate e a buf = (Inl err, b) \<Longrightarrow> write_score_code e a buf = (Inl err, b)"
  by (simp add: write_score_code_def)

lemma generate_after_prepare:
  assumes "prepare e a buf = (Inr mid, buf5)"
  shows "generate e a buf =
           (case predictions_to_metrics (metrics a) (target_values a) (predict_threshold a)
                   (h2o_call a) (predict_call a buf5) of
              (Inl err, buf6) \<Rightarrow> (Inl err, buf6)
            | (Inr u, buf6) \<Rightarrow> (Inr mid, buf6))"
  using assms by (simp add: generate_def)

lemma binary_stage:
  assumes "py_int tv = Inr 1"
  shows "predictions_to_metrics mets (Some [tv]) thr h b = binary_target (flatten mets) thr h b"
  using assms by (simp add: predictions_to_metrics_def)

lemma nonbinary_stage:
  assumes "length tvs > 1"
  shows "predictions_to_metrics mets (Some tvs) thr h b = nonbinary_targets (flatten mets) tvs h b"
  using assms by (auto simp: predictions_to_metrics_def)

section \<open>The buffer only grows\<close>

text \<open>
  No stage removes text from the buffer or resets it: whatever a stage returns, and also
  when it raises, the buffer it leaves starts with the buffer it received.
\<close>

lemma prefix_write_imports: "prefix buf (write_imports sess ptype mojo h2o bin buf)"
  by (cases sess) (simp_all add: write_imports_def Let_def)

lemma prefix_viya35_model_load:
  "prefix buf (snd (viya35_model_load e mid file_name ptype mojo h2o buf))"
  by (simp add: viya35_model_load_def split: sum.splits)

lemma prefix_viya4_model_load:
  "prefix buf (snd (viya4_model_load e file_name ptype mojo h2o buf))"
  by (simp add: viya4_model_load_def split: sum.splits)

lemma snd_returned_load: "snd (returned_load r) = snd r"
  by (cases r) (simp add: returned_load_def split: sum.splits)

lemma prefix_impute_numeric: "prefix buf (snd (impute_numeric data var buf))"
  by (simp add: impute_numeric_def split: input_data.splits option.splits list.splits)

lemma prefix_impute_char: "prefix buf (impute_char var buf)"
  by (simp add: impute_char_def)

lemma prefix_impute_loop: "prefix buf (snd (impute_loop data vs buf))"
proof (induction vs arbitrary: buf)
  case Nil
  show ?case by simp
next
  case (Cons v vs)
  obtain var dtype where v: "v = (var, dtype)" by (cases v)
  show ?case
  proof (cases "is_numeric dtype")
    case True
    obtain r b where n: "impute_numeric data var buf = (r, b)"
      by (cases "impute_numeric data var buf")
    then have pb: "prefix buf b"
      using prefix_impute_numeric [of buf data var] by simp
    show ?thesis
    proof (cases r)
      case (Inl err)
      with v True n pb show ?thesis by simp
    next
      case (Inr u)
      with v True n have "snd (impute_loop data (v # vs) buf) = snd (impute_loop data vs b)"
        by simp
      with pb Cons.IH [of b] show ?thesis
        by (metis prefix_order.order_trans)
    qed
  next
    case False
    with v have "snd (impute_loop data (v # vs) buf) = snd (impute_loop data vs (impute_char var buf))"
      by simp
    with Cons.IH [of "impute_char var buf"] prefix_impute_char [of buf var] show ?thesis
      by (metis prefix_order.order_trans)
  qed
qed

lemma prefix_impute_missing_values:
  "prefix buf (snd (impute_missing_values data var_list dtype_list buf))"
proof -
  obtain r b where l: "impute_loop data (zip var_list dtype_list) buf = (r, b)"
    by (cases "impute_loop data (zip var_list dtype_list) buf")
  then have "prefix buf b"
    using prefix_impute_loop [of buf data "zip var_list dtype_list"] by simp
  with l show ?thesis
    by (cases r) (simp_all add: impute_missing_values_def prefix_def, auto)
qed

lemma prefix_predict_method_stage:
  "prefix buf (predict_method_stage method var_list dtype_list statsmodels buf)"
  by (simp add: predict_method_stage_def)

lemma prefix_predict_call: "prefix buf (predict_call a buf)"
  by (simp add: predict_call_def prefix_predict_method_stage)

lemma prefix_no_targets_no_thresholds:
  "prefix buf (snd (no_targets_no_thresholds mets h2o buf))"
  by (simp add: no_targets_no_thresholds_def split: metrics.splits list.splits)

lemma prefix_binary_target: "prefix buf (snd (binary_target mets thr h2o buf))"
  by (simp add: binary_target_def Let_def)

lemma prefix_nonbinary_targets: "prefix buf (snd (nonbinary_targets mets tvs h2o buf))"
  by (simp add: nonbinary_targets_def Let_def)

lemma prefix_predictions_to_metrics:
  "prefix buf (snd (predictions_to_metrics mets tvs thr h2o buf))"
  by (simp add: predictions_to_metrics_def prefix_no_targets_no_thresholds
        prefix_binary_target prefix_nonbinary_targets split: sum.splits)

lemma prefix_model_load_stage: "prefix buf (snd (model_load_stage e a model_id buf))"
  by (simp add: model_load_stage_def Let_def snd_returned_load prefix_viya35_model_load
        prefix_viya4_model_load)

lemma prefix_function_header: "prefix buf (function_header a model_load buf)"
  by (simp add: function_header_def Let_def)

lemma prefix_prepare: "prefix buf (snd (prepare e a buf))"
proof (cases "check_for_invalid_variable_names (var_names (input_data a))")
  case (Inl err)
  then show ?thesis by (simp add: prepare_def)
next
  case chk: (Inr u)
  show ?thesis
  proof (cases "resolve_model_id e (model a)")
    case (Inl err)
    with chk show ?thesis by (simp add: prepare_def)
  next
    case mid: (Inr model_id)
    let ?b1 = "write_imports (current_session e) (pickle_type a) (kw_mojo_model a)
                 (kw_binary_h2o_model a) (kw_binary_string a) buf"
    obtain x buf2 where l: "model_load_stage e a model_id ?b1 = (x, buf2)"
      by (cases "model_load_stage e a model_id ?b1")
    have "prefix ?b1 buf2"
      using prefix_model_load_stage [of ?b1 e a model_id] l by simp
    with prefix_write_imports have b2: "prefix buf buf2"
      by (rule prefix_order.order_trans)
    show ?thesis
    proof (cases x)
      case (Inl err)
      with chk mid l b2 show ?thesis by (simp add: prepare_def)
    next
      case ml: (Inr model_load)
      let ?b4 = "function_header a model_load buf2"
      have b4: "prefix buf ?b4"
        using b2 prefix_function_header by (rule prefix_order.order_trans)
      show ?thesis
      proof (cases "missing_values a")
        case False
        with chk mid l ml b4 show ?thesis by (simp add: prepare_def)
      next
        case True
        let ?i = "impute_missing_values (input_data a) (var_names (input_data a))
                    (var_types (input_data a)) ?b4"
        have "prefix buf (snd ?i)"
          using b4 prefix_impute_missing_values by (rule prefix_order.order_trans)
        moreover have "snd (prepare e a buf) = snd ?i"
          using chk mid l ml True
          by (simp add: prepare_def split: prod.splits sum.splits)
        ultimately show ?thesis by simp
      qed
    qed
  qed
qed

lemma prefix_generate: "prefix buf (snd (generate e a buf))"
proof -
  obtain r buf5 where p: "prepare e a buf = (r, buf5)"
    by (cases "prepare e a buf")
  then have b5: "prefix buf buf5"
    using prefix_prepare [of buf e a] by simp
  show ?thesis
  proof (cases r)
    case (Inl err)
    with p b5 show ?thesis by (simp add: generate_def)
  next
    case (Inr model_id)
    let ?m = "predictions_to_metrics (metrics a) (target_values a) (predict_threshold a)
                (h2o_call a) (predict_call a buf5)"
    have "prefix buf5 (snd ?m)"
      using prefix_predict_call prefix_predictions_to_metrics
      by (rule prefix_order.order_trans)
    with b5 have "prefix buf (snd ?m)"
      by (rule prefix_order.order_trans)
    moreover have "snd (generate e a buf) = snd ?m"
      using p Inr by (simp add: generate_def split: prod.splits sum.splits)
    ultimately show ?thesis by simp
  qed
qed

lemma buffer_grows: "prefix buf (snd (write_score_code e a buf))"
  by (simp add: snd_write_score_code prefix_generate)

lemma prefix_after_prepare:
  assumes "prepare e a buf = (Inr model_id, buf5)"
  shows "prefix (predict_call a buf5) (snd (write_score_code e a buf))"
proof -
  have "snd (generate e a buf) =
        snd (predictions_to_metrics (metrics a) (target_values a) (predict_threshold a)
               (h2o_call a) (predict_call a buf5))"
    using assms by (simp add: generate_def split: prod.splits sum.splits)
  then show ?thesis
    by (simp add: snd_write_score_code prefix_predictions_to_metrics)
qed

section \<open>What the stages leave in the score code\<close>

text \<open>
  The buffer left by the stages before the prediction call, and the buffer left by the model
  load, are the beginning of the score code of the call.
\<close>

lemma prefix_prepare_write_score_code:
  "prefix (snd (prepare e a buf)) (snd (write_score_code e a buf))"
proof -
  obtain r buf5 where p: "prepare e a buf = (r, buf5)"
    by (cases "prepare e a buf")
  show ?thesis
  proof (cases r)
    case (Inl err)
    with p show ?thesis by (simp add: snd_write_score_code generate_def)
  next
    case (Inr model_id)
    with p have "prefix (predict_call a buf5) (snd (write_score_code e a buf))"
      by (simp add: prefix_after_prepare)
    with prefix_predict_call have "prefix buf5 (snd (write_score_code e a buf))"
      by (rule prefix_order.order_trans)
    with p show ?thesis by simp
  qed
qed

lemma load_stage_in_prepare:
  assumes chk: "check_for_invalid_variable_names (var_names (input_data a)) = Inr u"
      and mid: "resolve_model_id e (model a) = Inr model_id"
  shows "prefix
           (snd (model_load_stage e a model_id
                   (write_imports (current_session e) (pickle_type a) (kw_mojo_model a)
                      (kw_binary_h2o_model a) (kw_binary_string a) buf)))
           (snd (prepare e a buf))"
proof -
  let ?b1 = "write_imports (current_session e) (pickle_type a) (kw_mojo_model a)
               (kw_binary_h2o_model a) (kw_binary_string a) buf"
  obtain x buf2 where l: "model_load_stage e a model_id ?b1 = (x, buf2)"
    by (cases "model_load_stage e a model_id ?b1")
  show ?thesis
  proof (cases x)
    case (Inl err)
    with chk mid l show ?thesis by (simp add: prepare_def)
  next
    case ml: (Inr model_load)
    let ?b4 = "function_header a model_load buf2"
    show ?thesis
    proof (cases "missing_values a")
      case False
      with chk mid l ml show ?thesis by (simp add: prepare_def prefix_function_header)
    next
      case True
      let ?i = "impute_missing_values (input_data a) (var_names (input_data a))
                  (var_types (input_data a)) ?b4"
      have "prefix buf2 (snd ?i)"
        using prefix_function_header prefix_impute_missing_values
        by (rule prefix_order.order_trans)
      moreover have "snd (prepare e a buf) = snd ?i"
        using chk mid l ml True
        by (simp add: prepare_def split: prod.splits sum.splits)
      ultimately show ?thesis using l by simp
    qed
  qed
qed

lemma load_stage_in_score_code:
  assumes "check_for_invalid_variable_names (var_names (input_data a)) = Inr u"
      and "resolve_model_id e (model a) = Inr model_id"
  shows "prefix
           (snd (model_load_stage e a model_id
                   (write_imports (current_session e) (pickle_type a) (kw_mojo_model a)
                      (kw_binary_h2o_model a) (kw_binary_string a) buf)))
           (snd (write_score_code e a buf))"
  using load_stage_in_prepare [OF assms] prefix_prepare_write_score_code
  by (rule prefix_order.order_trans)

text \<open>A column that was imputed has its block in the buffer.\<close>

lemma impute_numeric_block:
  assumes "impute_numeric (DataFrame cols) (col_name c) buf = (Inr u, buf')"
      and "c \<in> set cols"
  shows "if col_all01 c then \<exists>m. col_mode c = Some m \<and> buf' = buf @ mode_block c m
         else buf' = buf @ mean_block c"
proof -
  let ?f = "filter (\<lambda>d. col_name d = col_name c) cols"
  from assms(2) have mem: "c \<in> set ?f" by simp
  from assms(1) obtain d where one: "?f = [d]"
    by (auto simp: impute_numeric_def split: list.splits)
  with mem have "d = c" by simp
  with one assms(1) show ?thesis
    by (auto simp: impute_numeric_def mean_block_def mode_block_def split: option.splits)
qed

lemma impute_loop_block:
  assumes "impute_loop (DataFrame cols) vs buf = (Inr u, buf')"
      and "(col_name c, dtype) \<in> set vs" and "is_numeric dtype" and "c \<in> set cols"
  shows "if col_all01 c then \<exists>m. col_mode c = Some m \<and> sublist (mode_block c m) buf'
         else sublist (mean_block c) buf'"
  using assms
proof (induction vs arbitrary: buf)
  case Nil
  then show ?case by simp
next
  case (Cons p vs)
  obtain var dt where p: "p = (var, dt)" by (cases p)
  show ?case
  proof (cases "is_numeric dt")
    case num: True
    obtain r buf1 where n: "impute_numeric (DataFrame cols) var buf = (r, buf1)"
      by (cases "impute_numeric (DataFrame cols) var buf")
    with Cons.prems(1) p num obtain u1 where r: "r = Inr u1"
      by (cases r) auto
    with Cons.prems(1) p num n have rest: "impute_loop (DataFrame cols) vs buf1 = (Inr u, buf')"
      by simp
    show ?thesis
    proof (cases "(col_name c, dtype) \<in> set vs")
      case True
      with Cons.IH [OF rest] Cons.prems(3,4) show ?thesis by simp
    next
      case False
      with Cons.prems(2) p have v: "var = col_name c" by simp
      have grow: "prefix buf1 buf'"
        using prefix_impute_loop [of buf1 "DataFrame cols" vs] rest by simp
      from n r v have "impute_numeric (DataFrame cols) (col_name c) buf = (Inr u1, buf1)"
        by simp
      from impute_numeric_block [OF this Cons.prems(4)]
      have "if col_all01 c then \<exists>m. col_mode c = Some m \<and> sublist (mode_block c m) buf1
            else sublist (mean_block c) buf1"
        by (auto split: if_splits)
      moreover have "\<And>t. sublist t buf1 \<Longrightarrow> sublist t buf'"
        using grow prefix_imp_sublist sublist_order.order_trans by blast
      ultimately show ?thesis by (auto split: if_splits)
    qed
  next
    case chr: False
    with Cons.prems(1) p
    have rest: "impute_loop (DataFrame cols) vs (impute_char var buf) = (Inr u, buf')"
      by simp
    from chr Cons.prems(2,3) p have "(col_name c, dtype) \<in> set vs" by auto
    with Cons.IH [OF rest] Cons.prems(3,4) show ?thesis by simp
  qed
qed

lemma imputation_in_prepare:
  assumes p: "prepare e a buf = (Inr mid, buf5)"
      and mv: "missing_values a"
      and df: "input_data a = DataFrame cols"
      and c: "c \<in> set cols" and num: "is_numeric (col_dtype c)"
  shows "if col_all01 c then \<exists>m. col_mode c = Some m \<and> sublist (mode_block c m) buf5
         else sublist (mean_block c) buf5"
proof -
  from p mv df obtain b4 u0 where
    i: "impute_missing_values (DataFrame cols) (map col_name cols) (map col_dtype cols) b4 =
          (Inr u0, buf5)"
    by (auto simp: prepare_def Let_def split: sum.splits prod.splits)
  then obtain u1 buf4 where
    l: "impute_loop (DataFrame cols) (zip (map col_name cols) (map col_dtype cols)) b4 =
          (Inr u1, buf4)" and b5: "buf5 = buf4 @ NL"
    by (auto simp: impute_missing_values_def split: sum.splits prod.splits)
  have "(col_name c, col_dtype c) \<in> set (zip (map col_name cols) (map col_dtype cols))"
    using c by (induction cols) auto
  from impute_loop_block [OF l this num c]
  have "if col_all01 c then \<exists>m. col_mode c = Some m \<and> sublist (mode_block c m) buf4
        else sublist (mean_block c) buf4" .
  moreover have "\<And>t. sublist t buf4 \<Longrightarrow> sublist t buf5"
    using b5 by (metis append_Nil sublist_appendI sublist_order.order_trans)
  ultimately show ?thesis by (auto split: if_splits)
qed

section \<open>The scan of \<^verbatim>\<open>pattern.sub\<close>\<close>

text \<open>
  The scan copies a stretch in which no marker begins, and replaces a marker where one
  begins.
\<close>

lemma match_at_marker_free:
  assumes "\<not> prefix package_header s" and "\<not> prefix int_declaration s"
      and "\<not> prefix endpackage s"
  shows "match_at (replace_strings outs mas) s = None"
  using assms by (simp add: match_at_def replace_strings_def)

lemma re_sub_marker_free:
  "marker_free seg rest \<Longrightarrow>
   re_sub (replace_strings outs mas) (seg @ rest) = seg @ re_sub (replace_strings outs mas) rest"
  by (induction seg) (simp_all add: match_at_marker_free)

lemma re_sub_match:
  assumes "match_at rs (k @ rest) = Some (k, v)" and "k \<noteq> []"
  shows "re_sub rs (k @ rest) = v @ re_sub rs rest"
proof -
  from assms(2) obtain x xs where s: "k @ rest = x # xs" by (cases k) auto
  have "re_sub rs (x # xs) =
      (case match_at rs (x # xs) of
         Some kv \<Rightarrow> snd kv @ re_sub rs (drop (length (fst kv)) (x # xs))
       | None \<Rightarrow> x # re_sub rs xs)"
    by simp
  with assms(1) show ?thesis unfolding s [symmetric] by simp
qed

lemma re_sub_package_header:
  "re_sub (replace_strings outs mas) (package_header @ rest) =
     ''data sasep.out;'' @ re_sub (replace_strings outs mas) rest"
proof (rule re_sub_match)
  show "match_at (replace_strings outs mas) (package_header @ rest) =
          Some (package_header, ''data sasep.out;'')"
    by (simp add: match_at_def replace_strings_def package_header_def)
  show "package_header \<noteq> []" by (simp add: package_header_def)
qed

lemma re_sub_int_declaration:
  "re_sub (replace_strings outs mas) (int_declaration @ rest) =
     (''dcl double resultCode revision;'' @ NL @ foldl add_dcl [] outs) @
     re_sub (replace_strings outs mas) rest"
proof (rule re_sub_match)
  show "match_at (replace_strings outs mas) (int_declaration @ rest) =
          Some (int_declaration, ''dcl double resultCode revision;'' @ NL @ foldl add_dcl [] outs)"
    by (simp add: match_at_def replace_strings_def package_header_def int_declaration_def)
  show "int_declaration \<noteq> []" by (simp add: int_declaration_def)
qed

lemma re_sub_endpackage:
  "re_sub (replace_strings outs mas) (endpackage @ rest) =
     end_block mas @ re_sub (replace_strings outs mas) rest"
proof (rule re_sub_match)
  show "match_at (replace_strings outs mas) (endpackage @ rest) = Some (endpackage, end_block mas)"
    by (simp add: match_at_def replace_strings_def package_header_def int_declaration_def
          endpackage_def)
  show "endpackage \<noteq> []" by (simp add: endpackage_def)
qed

lemma foldl_add_dcl:
  "foldl add_dcl acc outs =
     acc @ concat (map (\<lambda>v. ''dcl '' @
                          (if var_type v = ''string'' then ''varchar(100) '' else ''double '') @
                          var_name v @ '';'' @ NL) outs)"
  by (induction outs arbitrary: acc) (simp_all add: add_dcl_def)

section \<open>More than one target value\<close>

text \<open>
  C1. For the predictors \<^verbatim>\<open>LOAN\<close> and \<^verbatim>\<open>MORTDUE\<close>, the target values \<^verbatim>\<open>[1, 0]\<close> and the
  metrics \<^verbatim>\<open>["BAD", "P_BAD"]\<close>, as many metrics as target values, the call succeeds and the
  generated text ends with the list of target values, the assignment of \<^verbatim>\<open>prediction[1]\<close> to
  \<^verbatim>\<open>P_BAD\<close> and \<^verbatim>\<open>return BAD, P_BAD\<close>. It holds no \<^verbatim>\<open>max(\<close> and no assignment to \<^verbatim>\<open>BAD\<close>:
  the target value at the index of the largest prediction is not selected.
\<close>

theorem as_many_metrics_as_targets:
  "suffix (sp 4 @ ''prediction = model.predict_proba(input_array)'' @ NL @
           sp 4 @ ''target_values = [1, 0]'' @ NL @ sp 4 @ ''P_BAD = prediction[1]'' @ NL @
           sp 4 @ ''return BAD, P_BAD'')
     (snd (write_score_code no_session_env
             (hmeq_args\<lparr>metrics := MList [''BAD'', ''P_BAD'']\<rparr>) [])) \<and>
   \<not> sublist ''max(''
       (snd (write_score_code no_session_env
               (hmeq_args\<lparr>metrics := MList [''BAD'', ''P_BAD'']\<rparr>) [])) \<and>
   \<not> sublist (sp 4 @ ''BAD = '')
       (snd (write_score_code no_session_env
               (hmeq_args\<lparr>metrics := MList [''BAD'', ''P_BAD'']\<rparr>) []))"
  by code_simp

text \<open>
  The other two accepted shapes and the lengths that are refused. Let the stages before the metric
  mapping succeed and leave the buffer \<open>buf5\<close>, let there be \<open>N > 1\<close> target values and let
  \<^verbatim>\<open>metrics\<close> be a list. With one metric, or with \<open>N + 1\<close> metrics, the emitted code assigns
  to the first metric the target value at the index of the largest prediction. With a
  number of metrics other than 1, \<open>N\<close> and \<open>N + 1\<close> the call raises \<^verbatim>\<open>ValueError\<close>.
\<close>

lemma nonbinary_target_mapping:
  assumes "prepare e a buf = (Inr mid, buf5)"
      and "target_values a = Some tvs" and "length tvs > 1"
      and "metrics a = MList ms"
  shows "(length ms = 1 \<longrightarrow>
            snd (write_score_code e a buf) =
              predict_call a buf5 @ sp 4 @ ''target_values = '' @ repr_list repr_val tvs @ NL @
              sp 4 @ hd ms @ '' = target_values['' @
              (if h2o_call a then ''prediction[1][1:].index(max(prediction[1][1:]))''
               else ''prediction.index(max(prediction))'') @ '']'' @ NL @
              sp 4 @ ''return '' @ hd ms) \<and>
         (length ms = length tvs + 1 \<longrightarrow>
            snd (write_score_code e a buf) =
              predict_call a buf5 @ sp 4 @ ''target_values = '' @ repr_list repr_val tvs @ NL @
              probability_lines (if h2o_call a then ''prediction[1]['' else ''prediction['') ms @
              sp 4 @ hd ms @ '' = target_values['' @
              (if h2o_call a then ''prediction[1][1:].index(max(prediction[1][1:]))''
               else ''prediction.index(max(prediction))'') @ '']'' @ NL @
              sp 4 @ ''return '' @ join '', '' ms) \<and>
         (length ms \<noteq> 1 \<and> length ms \<noteq> length tvs \<and> length ms \<noteq> length tvs + 1 \<longrightarrow>
            write_score_code e a buf = (Inl (ValueError nonbinary_message), predict_call a buf5))"
proof -
  have gen: "generate e a buf =
           (case nonbinary_targets (flatten (MList ms)) tvs (h2o_call a) (predict_call a buf5) of
              (Inl err, buf6) \<Rightarrow> (Inl err, buf6)
            | (Inr u, buf6) \<Rightarrow> (Inr mid, buf6))"
    using assms by (simp add: generate_after_prepare nonbinary_stage)
  have one: "length ms = 1 \<Longrightarrow> \<exists>m. ms = [m]" by (cases ms) auto
  have many: "length ms \<noteq> 1 \<Longrightarrow> flatten (MList ms) = MList ms"
    by (cases ms; cases "tl ms") auto
  show ?thesis
  proof (intro conjI impI)
    assume "length ms = 1"
    with one obtain m where "ms = [m]" by blast
    then show "snd (write_score_code e a buf) =
              predict_call a buf5 @ sp 4 @ ''target_values = '' @ repr_list repr_val tvs @ NL @
              sp 4 @ hd ms @ '' = target_values['' @
              (if h2o_call a then ''prediction[1][1:].index(max(prediction[1][1:]))''
               else ''prediction.index(max(prediction))'') @ '']'' @ NL @
              sp 4 @ ''return '' @ hd ms"
      by (simp add: snd_write_score_code gen nonbinary_targets_def argmax_index_def)
  next
    assume len: "length ms = length tvs + 1"
    with assms(3) have "length ms \<noteq> 1" "tvs \<noteq> []" by auto
    with len show "snd (write_score_code e a buf) =
              predict_call a buf5 @ sp 4 @ ''target_values = '' @ repr_list repr_val tvs @ NL @
              probability_lines (if h2o_call a then ''prediction[1]['' else ''prediction['') ms @
              sp 4 @ hd ms @ '' = target_values['' @
              (if h2o_call a then ''prediction[1][1:].index(max(prediction[1][1:]))''
               else ''prediction.index(max(prediction))'') @ '']'' @ NL @
              sp 4 @ ''return '' @ join '', '' ms"
      by (simp add: snd_write_score_code gen many nonbinary_targets_def argmax_index_def Let_def)
  next
    assume len: "length ms \<noteq> 1 \<and> length ms \<noteq> length tvs \<and> length ms \<noteq> length tvs + 1"
    then have "generate e a buf = (Inl (ValueError nonbinary_message), predict_call a buf5)"
      by (simp add: gen many nonbinary_targets_def)
    then show "write_score_code e a buf =
        (Inl (ValueError nonbinary_message), predict_call a buf5)"
      by (rule write_score_code_error)
  qed
qed

lemma nonbinary_target_mapping_example:
  "snd (write_score_code no_session_env
          (hmeq_args\<lparr>metrics := MList [''BAD'', ''P_1'', ''P_0'']\<rparr>) ''# score code'') =
      ''# score codeimport math'' @ NL @ ''import pickle'' @ NL @ ''import pandas as pd'' @
      NL @ ''import numpy as np'' @ NL @ ''from pathlib import Path'' @ NL @ NL @
      ''with open(Path(settings.pickle_path) / '' @ DQ @ ''pickle'' @ DQ @ '', '' @ DQ @
      ''rb'' @ DQ @ '') as pickle_model:'' @ NL @
      ''    model = Tree.pickle.load(pickle_model)'' @ NL @ NL @
      ''def scoreTree(LOAN, MORTDUE):'' @ NL @ ''    '' @ DQ @ ''Output: BAD, P_1, P_0'' @ DQ @
      NL @ NL @ ''    try:'' @ NL @ ''        global model'' @ NL @ ''    except NameError:'' @
      NL @ ''        with open(Path(settings.pickle_path) / '' @ DQ @ ''pickle'' @ DQ @
      '', '' @ DQ @ ''rb'' @ DQ @ '') as pickle_model:'' @ NL @
      ''                model = Tree.pickle.load(pickle_model)'' @ NL @ NL @
      ''    input_array = pd.DataFrame([[LOAN, MORTDUE]],'' @ NL @
      ''                              columns=['' @ DQ @ ''LOAN'' @ DQ @ '', '' @ DQ @
      ''MORTDUE'' @ DQ @ ''],'' @ NL @ ''                              dtype=float)'' @ NL @
      ''    prediction = model.predict_proba(input_array)'' @ NL @
      ''    target_values = [1, 0]'' @ NL @ ''    P_1 = prediction[1]'' @ NL @
      ''    P_0 = prediction[2]'' @ NL @
      ''    BAD = target_values[prediction.index(max(prediction))]'' @ NL @
      ''    return BAD, P_1, P_0''"
proof -
  let ?a = "hmeq_args\<lparr>metrics := MList [''BAD'', ''P_1'', ''P_0'']\<rparr>"
  let ?b = "''# score code''"
  have p: "prepare no_session_env ?a ?b = (Inr None, snd (prepare no_session_env ?a ?b))"
    by code_simp
  have t: "target_values ?a = Some [PInt 1, PInt 0]" by (simp add: hmeq_args_def)
  have n: "length [PInt 1, PInt 0] > 1" by simp
  have m: "metrics ?a = MList [''BAD'', ''P_1'', ''P_0'']" by (simp add: hmeq_args_def)
  have l: "length [''BAD'', ''P_1'', ''P_0''] = length [PInt 1, PInt 0] + 1" by simp
  note eq = nonbinary_target_mapping [OF p t n m, THEN conjunct2, THEN conjunct1, THEN mp, OF l]
  show ?thesis unfolding eq by code_simp
qed

section \<open>One target value equal to 1\<close>

text \<open>
  C2. For the predictors \<^verbatim>\<open>LOAN\<close> and \<^verbatim>\<open>MORTDUE\<close>, the metric \<^verbatim>\<open>BAD\<close>, the single target
  value \<^verbatim>\<open>1\<close> and no threshold, the call succeeds and the generated text is the one below:
  the comparison with \<^verbatim>\<open>0.5\<close> and both assignments to \<^verbatim>\<open>BAD\<close> stand inside the function,
  and the last line, \<^verbatim>\<open>return BAD\<close>, starts at column 0, outside the function. No
  \<^verbatim>\<open>return\<close> of the text is indented.
\<close>

theorem binary_target_return_at_column_0:
  "snd (write_score_code no_session_env (hmeq_args\<lparr>target_values := Some [PInt 1]\<rparr>) []) =
      ''import math'' @ NL @ ''import pickle'' @ NL @ ''import pandas as pd'' @ NL @
      ''import numpy as np'' @ NL @ ''from pathlib import Path'' @ NL @ NL @
      ''with open(Path(settings.pickle_path) / '' @ DQ @ ''pickle'' @ DQ @ '', '' @ DQ @
      ''rb'' @ DQ @ '') as pickle_model:'' @ NL @
      ''    model = Tree.pickle.load(pickle_model)'' @ NL @ NL @
      ''def scoreTree(LOAN, MORTDUE):'' @ NL @ ''    '' @ DQ @ ''Output: BAD'' @ DQ @ NL @ NL @
      ''    try:'' @ NL @ ''        global model'' @ NL @ ''    except NameError:'' @ NL @
      ''        with open(Path(settings.pickle_path) / '' @ DQ @ ''pickle'' @ DQ @ '', '' @
      DQ @ ''rb'' @ DQ @ '') as pickle_model:'' @ NL @
      ''                model = Tree.pickle.load(pickle_model)'' @ NL @ NL @
      ''    input_array = pd.DataFrame([[LOAN, MORTDUE]],'' @ NL @
      ''                              columns=['' @ DQ @ ''LOAN'' @ DQ @ '', '' @ DQ @
      ''MORTDUE'' @ DQ @ ''],'' @ NL @ ''                              dtype=float)'' @ NL @
      ''    prediction = model.predict_proba(input_array)'' @ NL @
      ''    if prediction > 0.5:'' @ NL @ ''        BAD = 1'' @ NL @ ''    else:'' @ NL @
      ''        BAD = 0'' @ NL @ NL @ ''return BAD'' \<and>
   \<not> sublist (sp 4 @ ''return'')
       (snd (write_score_code no_session_env (hmeq_args\<lparr>target_values := Some [PInt 1]\<rparr>) []))"
  by code_simp

text \<open>
  The part of the mapping before the return statement, and its rejection of more than two
  metrics. Let the stages before the metric mapping succeed and leave the buffer \<open>buf5\<close>,
  let there be exactly one target value, with \<^verbatim>\<open>int(target_values[0]) == 1\<close>, and let
  \<^verbatim>\<open>metrics\<close> be a list. With one or two metrics the emitted code compares the prediction
  (for an H2O model the entry \<^verbatim>\<open>prediction[1][2]\<close>) with the threshold, which is \<^verbatim>\<open>0.5\<close>
  when no threshold was given, and sets the first metric to 1 or 0. With more than two
  metrics the call raises \<^verbatim>\<open>ValueError\<close>.
\<close>

lemma binary_target_comparison:
  assumes "prepare e a buf = (Inr mid, buf5)"
      and "target_values a = Some [tv]" and "py_int tv = Inr 1"
      and "metrics a = MList ms"
  shows "(length ms = 1 \<or> length ms = 2 \<longrightarrow>
            prefix
              (predict_call a buf5 @ sp 4 @ ''if '' @
               (if h2o_call a then ''prediction[1][2]'' else ''prediction'') @ '' > '' @
               (case predict_threshold a of None \<Rightarrow> ''0.5''
                | Some v \<Rightarrow> if nonzero v then text_of v else ''0.5'') @ '':'' @ NL @
               sp 8 @ hd ms @ '' = 1'' @ NL @ sp 4 @ ''else:'' @ NL @
               sp 8 @ hd ms @ '' = 0'' @ NL)
              (snd (write_score_code e a buf))) \<and>
         (length ms > 2 \<longrightarrow>
            write_score_code e a buf =
              (Inl (ValueError ''Too many metrics were provided for a binary model.''),
               predict_call a buf5))"
proof (intro conjI impI)
  assume "length ms = 1 \<or> length ms = 2"
  then consider m where "ms = [m]" | m p where "ms = [m, p]"
    by (cases ms; cases "tl ms") auto
  then show "prefix
              (predict_call a buf5 @ sp 4 @ ''if '' @
               (if h2o_call a then ''prediction[1][2]'' else ''prediction'') @ '' > '' @
               (case predict_threshold a of None \<Rightarrow> ''0.5''
                | Some v \<Rightarrow> if nonzero v then text_of v else ''0.5'') @ '':'' @ NL @
               sp 8 @ hd ms @ '' = 1'' @ NL @ sp 4 @ ''else:'' @ NL @
               sp 8 @ hd ms @ '' = 0'' @ NL)
              (snd (write_score_code e a buf))"
  proof cases
    case 1
    then show ?thesis
      using assms
      by (simp add: snd_write_score_code generate_after_prepare binary_stage binary_target_def
            default_threshold_def split: option.splits)
  next
    case 2
    then show ?thesis
      using assms
      by (simp add: snd_write_score_code generate_after_prepare binary_stage binary_target_def
            default_threshold_def split: option.splits)
  qed
next
  assume "length ms > 2"
  then have "\<not> single_metric (flatten (MList ms))" "len_metrics (flatten (MList ms)) \<noteq> 2"
    by (cases ms; cases "tl ms"; auto)+
  then have "generate e a buf =
      (Inl (ValueError ''Too many metrics were provided for a binary model.''), predict_call a buf5)"
    using assms
    by (simp add: generate_after_prepare binary_stage binary_target_def Let_def)
  then show "write_score_code e a buf =
              (Inl (ValueError ''Too many metrics were provided for a binary model.''),
               predict_call a buf5)"
    by (rule write_score_code_error)
qed

section \<open>Validation of the predictor names\<close>

text \<open>
  C3. When at least one predictor name is not a Python identifier, \<^verbatim>\<open>write_score_code\<close>
  raises \<^verbatim>\<open>SyntaxError\<close>; the message joins exactly the names that are not identifiers, in
  their order, and the buffer is what it was before the call: nothing has been emitted.
\<close>

theorem invalid_names_rejected:
  assumes "filter (\<lambda>name. \<not> isidentifier name) (var_names (input_data a)) \<noteq> []"
  shows "write_score_code e a buf =
           (Inl (SyntaxError (invalid_names_message
                   (filter (\<lambda>name. \<not> isidentifier name) (var_names (input_data a))))), buf)"
  using assms
  by (simp add: write_score_code_def generate_def prepare_def
        check_for_invalid_variable_names_def)

theorem invalid_names_rejected_witness:
  "write_score_code no_session_env (hmeq_args\<lparr>input_data := mlflow_inputs\<rparr>) ''import os'' =
     (Inl (SyntaxError (''The following are not valid variable names: 2nd mortgage, . '' @
             ''Please confirm that all variable names can be used as Python variables. '' @
             ''E.g. `str(name).isidentifier() == True`.'')), ''import os'')"
  using invalid_names_rejected
          [of "hmeq_args\<lparr>input_data := mlflow_inputs\<rparr>" no_session_env "''import os''"]
  by (simp add: mlflow_inputs_def invalid_names_message_def xid_start_def xid_continue_def)

section \<open>A threshold without target values\<close>





section \<open>From the wrapper of the Micro Analytic Service to the wrapper for CAS\<close>

text \<open>
  C5. Let the text hold the package header, the declaration of \<^verbatim>\<open>resultCode\<close> and
  \<^verbatim>\<open>endpackage;\<close> in this order, with stretches \<open>a\<close>, \<open>b\<close>, \<open>c\<close>, \<open>d\<close> around them in which
  no marker begins, and let the repository know the model. Then \<^verbatim>\<open>convert_mas_to_cas\<close>
  returns the same stretches with the header replaced by \<^verbatim>\<open>data sasep.out;\<close>, the declaration
  replaced by the declaration as \<^verbatim>\<open>double\<close> followed by one \<^verbatim>\<open>dcl\<close> line for each output
  variable of the model, in the order of the repository, \<^verbatim>\<open>varchar(100)\<close> for the type
  \<^verbatim>\<open>string\<close> and \<^verbatim>\<open>double\<close> for every other type, and \<^verbatim>\<open>endpackage;\<close> replaced by the
  \<^verbatim>\<open>run\<close> method that calls \<^verbatim>\<open>score\<close>.
\<close>

theorem mas_to_cas_rewrite:
  assumes "get_model e m = Some r"
      and "marker_free a (package_header @ b @ int_declaration @ c @ endpackage @ d)"
      and "marker_free b (int_declaration @ c @ endpackage @ d)"
      and "marker_free c (endpackage @ d)"
      and "marker_free d []"
  shows "convert_mas_to_cas e
           (a @ package_header @ b @ int_declaration @ c @ endpackage @ d) m =
         Inr (a @ ''data sasep.out;'' @ b @
              ''dcl double resultCode revision;'' @ NL @
              concat (map (\<lambda>v. ''dcl '' @
                             (if var_type v = ''string'' then ''varchar(100) '' else ''double '') @
                             var_name v @ '';'' @ NL) (outputVariables r)) @
              c @
              ''method run();'' @ NL @ sp 4 @ ''set SASEP.IN;'' @ NL @ sp 4 @ ''score('' @
              input_string (a @ package_header @ b @ int_declaration @ c @ endpackage @ d) @
              '');'' @ NL @ ''end;'' @ NL @ ''enddata;'' @
              d)"
proof -
  let ?mas = "a @ package_header @ b @ int_declaration @ c @ endpackage @ d"
  let ?rs = "replace_strings (outputVariables r) ?mas"
  have d: "re_sub ?rs d = d"
    using re_sub_marker_free [OF assms(5), of "outputVariables r" ?mas] by simp
  have "re_sub ?rs ?mas =
          a @ ''data sasep.out;'' @ b @
          (''dcl double resultCode revision;'' @ NL @ foldl add_dcl [] (outputVariables r)) @
          c @ end_block ?mas @ d"
    by (simp only: re_sub_marker_free [OF assms(2)] re_sub_marker_free [OF assms(3)]
          re_sub_marker_free [OF assms(4)] re_sub_package_header re_sub_int_declaration
          re_sub_endpackage d)
  then show ?thesis
    using assms(1)
    by (simp add: convert_mas_to_cas_def foldl_add_dcl [of "[]"] end_block_def)
qed

theorem mas_to_cas_rewrite_witness:
  "convert_mas_to_cas repository_env
     (package_header @ mas_declarations @ int_declaration @ mas_methods @ endpackage @ NL)
     ''Tree'' =
   Inr (''data sasep.out;'' @ NL @ ''dcl package pymas pm;'' @ NL @
        ''dcl varchar(32767) character set utf8 pypgm;'' @ NL @
        ''dcl double resultCode revision;'' @ NL @
        ''dcl double EM_EVENTPROBABILITY;'' @ NL @
        ''dcl varchar(100) EM_CLASSIFICATION;'' @ NL @ NL @ NL @
        ''method score(double LOAN, double MORTDUE, in_out double resultCode, '' @
        ''in_out double EM_EVENTPROBABILITY, in_out varchar(100) EM_CLASSIFICATION);'' @ NL @
        ''    resultCode = revision = 0;'' @ NL @ ''end;'' @ NL @ NL @
        ''method run();'' @ NL @ ''    set SASEP.IN;'' @ NL @
        ''    score(LOAN, MORTDUE, resultCode, EM_EVENTPROBABILITY, EM_CLASSIFICATION);'' @ NL @
        ''end;'' @ NL @ ''enddata;'' @ NL)"
proof -
  let ?r = "\<lparr> model_id_of = ''0a1b2c'',
             outputVariables =
               [\<lparr> var_name = ''EM_EVENTPROBABILITY'', var_type = ''decimal'' \<rparr>,
                \<lparr> var_name = ''EM_CLASSIFICATION'', var_type = ''string'' \<rparr>] \<rparr>"
  have g: "get_model repository_env ''Tree'' = Some ?r"
    by (simp add: repository_env_def)
  have a: "marker_free [] (package_header @ mas_declarations @ int_declaration @ mas_methods @
                           endpackage @ NL)"
    by simp
  have b: "marker_free mas_declarations (int_declaration @ mas_methods @ endpackage @ NL)"
    by code_simp
  have c: "marker_free mas_methods (endpackage @ NL)"
    by code_simp
  have d: "marker_free NL []"
    by code_simp
  have t: "[] @ ''data sasep.out;'' @ mas_declarations @
              ''dcl double resultCode revision;'' @ NL @
              concat (map (\<lambda>v. ''dcl '' @
                             (if var_type v = ''string'' then ''varchar(100) '' else ''double '') @
                             var_name v @ '';'' @ NL) (outputVariables ?r)) @
              mas_methods @
              ''method run();'' @ NL @ sp 4 @ ''set SASEP.IN;'' @ NL @ sp 4 @ ''score('' @
              input_string ([] @ package_header @ mas_declarations @ int_declaration @
                            mas_methods @ endpackage @ NL) @
              '');'' @ NL @ ''end;'' @ NL @ ''enddata;'' @
              NL =
        ''data sasep.out;'' @ NL @ ''dcl package pymas pm;'' @ NL @
        ''dcl varchar(32767) character set utf8 pypgm;'' @ NL @
        ''dcl double resultCode revision;'' @ NL @
        ''dcl double EM_EVENTPROBABILITY;'' @ NL @
        ''dcl varchar(100) EM_CLASSIFICATION;'' @ NL @ NL @ NL @
        ''method score(double LOAN, double MORTDUE, in_out double resultCode, '' @
        ''in_out double EM_EVENTPROBABILITY, in_out varchar(100) EM_CLASSIFICATION);'' @ NL @
        ''    resultCode = revision = 0;'' @ NL @ ''end;'' @ NL @ NL @
        ''method run();'' @ NL @ ''    set SASEP.IN;'' @ NL @
        ''    score(LOAN, MORTDUE, resultCode, EM_EVENTPROBABILITY, EM_CLASSIFICATION);'' @ NL @
        ''end;'' @ NL @ ''enddata;'' @ NL"
    by code_simp
  from mas_to_cas_rewrite [OF g a b c d]
  have "convert_mas_to_cas repository_env
          ([] @ package_header @ mas_declarations @ int_declaration @ mas_methods @
           endpackage @ NL) ''Tree'' =
        Inr (''data sasep.out;'' @ NL @ ''dcl package pymas pm;'' @ NL @
        ''dcl varchar(32767) character set utf8 pypgm;'' @ NL @
        ''dcl double resultCode revision;'' @ NL @
        ''dcl double EM_EVENTPROBABILITY;'' @ NL @
        ''dcl varchar(100) EM_CLASSIFICATION;'' @ NL @ NL @ NL @
        ''method score(double LOAN, double MORTDUE, in_out double resultCode, '' @
        ''in_out double EM_EVENTPROBABILITY, in_out varchar(100) EM_CLASSIFICATION);'' @ NL @
        ''    resultCode = revision = 0;'' @ NL @ ''end;'' @ NL @ NL @
        ''method run();'' @ NL @ ''    set SASEP.IN;'' @ NL @
        ''    score(LOAN, MORTDUE, resultCode, EM_EVENTPROBABILITY, EM_CLASSIFICATION);'' @ NL @
        ''end;'' @ NL @ ''enddata;'' @ NL)"
    unfolding t .
  then show ?thesis by simp
qed

section \<open>The scenario with the predictors LOAN and MORTDUE\<close>

lemma header_in_function_header:
  "sublist (''def score'' @ model_prefix a @ ''('' @ join '', '' (var_names (input_data a)) @
            ''):'' @ NL) (function_header a model_load buf2)"
proof -
  let ?h = "''def score'' @ model_prefix a @ ''('' @ join '', '' (var_names (input_data a)) @
            ''):'' @ NL"
  have "\<exists>t. function_header a model_load buf2 = buf2 @ ?h @ t"
    by (simp add: function_header_def Let_def)
  then show ?thesis
    by (metis sublist_appendI)
qed

lemma header_after_prepare:
  assumes "prepare e a buf = (Inr mid, buf5)"
  shows "sublist (''def score'' @ model_prefix a @ ''('' @ join '', '' (var_names (input_data a)) @
                  ''):'' @ NL) buf5"
proof -
  let ?h = "''def score'' @ model_prefix a @ ''('' @ join '', '' (var_names (input_data a)) @
            ''):'' @ NL"
  have "\<exists>model_load buf2. prefix (function_header a model_load buf2) buf5"
  proof (cases "missing_values a")
    case False
    with assms show ?thesis
      by (auto simp: prepare_def Let_def split: sum.splits prod.splits)
  next
    case True
    with assms obtain model_load buf2 r where
      "impute_missing_values (input_data a) (var_names (input_data a))
         (var_types (input_data a)) (function_header a model_load buf2) = (r, buf5)"
      by (auto simp: prepare_def Let_def split: sum.splits prod.splits)
    then have "prefix (function_header a model_load buf2) buf5"
      using prefix_impute_missing_values
              [of "function_header a model_load buf2" "input_data a"
                  "var_names (input_data a)" "var_types (input_data a)"]
      by simp
    then show ?thesis by blast
  qed
  then obtain model_load buf2 where "prefix (function_header a model_load buf2) buf5"
    by blast
  then have "sublist (function_header a model_load buf2) buf5"
    by (rule prefix_imp_sublist)
  with header_in_function_header [of a model_load buf2] show ?thesis
    by (rule sublist_order.order_trans)
qed

text \<open>
  C6, as the code has it. With the predictors \<^verbatim>\<open>["LOAN", "MORTDUE"]\<close>, the metrics
  \<^verbatim>\<open>["BAD"]\<close>, the target values \<^verbatim>\<open>[1, 0]\<close> and no threshold, and the stages before the
  metric mapping succeeding, the score code holds the line \<^verbatim>\<open>def score<prefix>(LOAN, MORTDUE):\<close>,
  the prefix following \<^verbatim>\<open>score\<close> directly, and it ends with the selection of the target
  value at the index of the largest prediction and the return of \<^verbatim>\<open>BAD\<close>: two target
  values take the branch for several classes, which compares with no threshold.
\<close>

theorem hmeq_scenario:
  assumes "prepare e a buf = (Inr mid, buf5)"
      and "var_names (input_data a) = [''LOAN'', ''MORTDUE'']"
      and "metrics a = MList [''BAD'']"
      and "target_values a = Some [PInt 1, PInt 0]"
      and "predict_threshold a = None"
  shows "sublist (''def score'' @ model_prefix a @ ''(LOAN, MORTDUE):'' @ NL)
           (snd (write_score_code e a buf)) \<and>
         suffix (sp 4 @ ''target_values = [1, 0]'' @ NL @
                 sp 4 @ ''BAD = target_values['' @
                 (if h2o_call a then ''prediction[1][1:].index(max(prediction[1][1:]))''
                  else ''prediction.index(max(prediction))'') @ '']'' @ NL @
                 sp 4 @ ''return BAD'')
           (snd (write_score_code e a buf))"
proof
  have "sublist (''def score'' @ model_prefix a @ ''(LOAN, MORTDUE):'' @ NL) buf5"
    using header_after_prepare [OF assms(1)] assms(2) by simp
  moreover have "sublist buf5 (snd (write_score_code e a buf))"
    using prefix_predict_call prefix_after_prepare [OF assms(1)]
    by (metis prefix_order.order_trans prefix_imp_sublist)
  ultimately show "sublist (''def score'' @ model_prefix a @ ''(LOAN, MORTDUE):'' @ NL)
                     (snd (write_score_code e a buf))"
    by (rule sublist_order.order_trans)
next
  have r: "repr_list repr_val [PInt 1, PInt 0] = ''[1, 0]''"
    by code_simp
  have "snd (write_score_code e a buf) =
          predict_call a buf5 @ sp 4 @ ''target_values = [1, 0]'' @ NL @
          sp 4 @ ''BAD = target_values['' @
          (if h2o_call a then ''prediction[1][1:].index(max(prediction[1][1:]))''
           else ''prediction.index(max(prediction))'') @ '']'' @ NL @
          sp 4 @ ''return BAD''"
    using assms r
    by (simp add: snd_write_score_code generate_after_prepare nonbinary_stage
          nonbinary_targets_def argmax_index_def)
  then show "suffix (sp 4 @ ''target_values = [1, 0]'' @ NL @
                 sp 4 @ ''BAD = target_values['' @
                 (if h2o_call a then ''prediction[1][1:].index(max(prediction[1][1:]))''
                  else ''prediction.index(max(prediction))'') @ '']'' @ NL @
                 sp 4 @ ''return BAD'')
           (snd (write_score_code e a buf))"
    by (simp add: suffix_def)
qed

theorem hmeq_scenario_witness:
  "sublist (''def scoreTree(LOAN, MORTDUE):'' @ NL)
     (snd (write_score_code no_session_env hmeq_args [])) \<and>
   suffix (''    target_values = [1, 0]'' @ NL @
           ''    BAD = target_values[prediction.index(max(prediction))]'' @ NL @
           ''    return BAD'')
     (snd (write_score_code no_session_env hmeq_args []))"
proof -
  have p: "prepare no_session_env hmeq_args [] =
             (Inr None, snd (prepare no_session_env hmeq_args []))"
    by code_simp
  have v: "var_names (input_data hmeq_args) = [''LOAN'', ''MORTDUE'']"
    by (simp add: hmeq_args_def hmeq_def)
  have m: "metrics hmeq_args = MList [''BAD'']" by (simp add: hmeq_args_def)
  have t: "target_values hmeq_args = Some [PInt 1, PInt 0]" by (simp add: hmeq_args_def)
  have n: "predict_threshold hmeq_args = None" by (simp add: hmeq_args_def)
  have s: "sp 4 = ''    ''" by code_simp
  show ?thesis
    using hmeq_scenario [OF p v m t n]
    by (simp add: hmeq_args_def h2o_call_def s)
qed

text \<open>
  The claim as it was stated fails: the score code of the scenario has no \<^verbatim>\<open>def score_\<close>,
  no \<^verbatim>\<open>0.5\<close> and no assignment of 1 to \<^verbatim>\<open>BAD\<close>.
\<close>

theorem hmeq_scenario_counterexample:
  "\<not> sublist ''def score_'' (snd (write_score_code no_session_env hmeq_args [])) \<and>
   \<not> sublist ''0.5'' (snd (write_score_code no_session_env hmeq_args [])) \<and>
   \<not> sublist ''BAD = 1'' (snd (write_score_code no_session_env hmeq_args []))"
  by code_simp

section \<open>The buffer across calls\<close>

text \<open>
  C7 asks that a call's score code holds no text of an earlier call. The buffer is the class
  attribute, initialised once to the empty string and only ever extended. A second call
  with the same arguments, made on the buffer the first call left, leaves the first call's
  score code twice over, and returns that as the score file.
\<close>

theorem second_call_keeps_first_score_code:
  "snd (write_score_code no_session_env hmeq_args []) \<noteq> [] \<and>
   snd (write_score_code no_session_env hmeq_args
          (snd (write_score_code no_session_env hmeq_args []))) =
     snd (write_score_code no_session_env hmeq_args []) @
     snd (write_score_code no_session_env hmeq_args []) \<and>
   fst (write_score_code no_session_env hmeq_args
          (snd (write_score_code no_session_env hmeq_args []))) =
     Inr (Returned [(''Tree_score.py'',
            snd (write_score_code no_session_env hmeq_args []) @
            snd (write_score_code no_session_env hmeq_args []))])"
  by code_simp

section \<open>The arguments of the load helpers\<close>

text \<open>
  C8. \<^verbatim>\<open>write_score_code\<close> calls both load helpers with \<^verbatim>\<open>pickle_type\<close> in the place of
  the file name and \<^verbatim>\<open>model_file_name\<close> in the place of the pickle type. So, for a call
  without an H2O model and without \<^verbatim>\<open>binary_string\<close>, whose predictor names are valid, whose
  model identifier \<open>mid\<close> was resolved and whose \<^verbatim>\<open>model_file_name\<close> is a string \<open>f\<close> that is
  not empty, the score code starts with the imports and the load block, and the load block
  opens the file named by \<^verbatim>\<open>pickle_type\<close> and calls \<open>f\<close>\<^verbatim>\<open>.load\<close>: on SAS Viya 3.5 under the
  path of the model, otherwise under \<^verbatim>\<open>settings.pickle_path\<close>.
\<close>

theorem load_block_arguments_interchanged:
  assumes "check_for_invalid_variable_names (var_names (input_data a)) = Inr u"
      and "resolve_model_id e (model a) = Inr mid"
      and "\<not> h2o_call a" and "kw_binary_string a = None"
      and "model_file_name a = Some f" and "f \<noteq> []"
  shows "prefix
           (write_imports (current_session e) (pickle_type a) False False None buf @
            (if truthy mid
             then ''model_path = Path('' @ DQ @ ''/models/resources/viya/'' @ the mid @ DQ @
                  '')'' @ NL @
                  ''with open(model_path / '' @ DQ @ fmt_opt (pickle_type a) @ DQ @ '', '' @
                  DQ @ ''rb'' @ DQ @ '') as pickle_model:'' @ NL @
                  sp 4 @ ''model = '' @ f @ ''.load(pickle_model)'' @ NL @ NL
             else ''with open(Path(settings.pickle_path) / '' @ DQ @ fmt_opt (pickle_type a) @
                  DQ @ '', '' @ DQ @ ''rb'' @ DQ @ '') as pickle_model:'' @ NL @
                  ''    model = '' @ f @ ''.load(pickle_model)'' @ NL @ NL))
           (snd (write_score_code e a buf))"
proof -
  have "snd (model_load_stage e a mid
               (write_imports (current_session e) (pickle_type a) (kw_mojo_model a)
                  (kw_binary_h2o_model a) (kw_binary_string a) buf)) =
        write_imports (current_session e) (pickle_type a) False False None buf @
            (if truthy mid
             then ''model_path = Path('' @ DQ @ ''/models/resources/viya/'' @ the mid @ DQ @
                  '')'' @ NL @
                  ''with open(model_path / '' @ DQ @ fmt_opt (pickle_type a) @ DQ @ '', '' @
                  DQ @ ''rb'' @ DQ @ '') as pickle_model:'' @ NL @
                  sp 4 @ ''model = '' @ f @ ''.load(pickle_model)'' @ NL @ NL
             else ''with open(Path(settings.pickle_path) / '' @ DQ @ fmt_opt (pickle_type a) @
                  DQ @ '', '' @ DQ @ ''rb'' @ DQ @ '') as pickle_model:'' @ NL @
                  ''    model = '' @ f @ ''.load(pickle_model)'' @ NL @ NL)"
    using assms(3-6)
    by (simp add: model_load_stage_def viya35_model_load_def viya4_model_load_def
          returned_load_def h2o_call_def or_pickle_def)
  with load_stage_in_score_code [OF assms(1,2), of buf] show ?thesis by simp
qed

theorem load_block_arguments_interchanged_witness:
  "prefix
     (''import math'' @ NL @ ''import dill'' @ NL @ ''import pandas as pd'' @ NL @
      ''import numpy as np'' @ NL @ ''from pathlib import Path'' @ NL @ NL @
      ''with open(Path(settings.pickle_path) / '' @ DQ @ ''dill'' @ DQ @ '', '' @ DQ @
      ''rb'' @ DQ @ '') as pickle_model:'' @ NL @
      ''    model = Tree.pickle.load(pickle_model)'' @ NL @ NL)
     (snd (write_score_code no_session_env (hmeq_args\<lparr>pickle_type := Some ''dill''\<rparr>) []))"
proof -
  let ?a = "hmeq_args\<lparr>pickle_type := Some ''dill''\<rparr>"
  have n: "check_for_invalid_variable_names (var_names (input_data ?a)) = Inr ()"
    by code_simp
  have r: "resolve_model_id no_session_env (model ?a) = Inr None"
    by (simp add: resolve_model_id_def no_session_env_def)
  have h: "\<not> h2o_call ?a" by (simp add: h2o_call_def hmeq_args_def)
  have b: "kw_binary_string ?a = None" by (simp add: hmeq_args_def)
  have f: "model_file_name ?a = Some ''Tree.pickle''" by (simp add: hmeq_args_def)
  have e: "''Tree.pickle'' \<noteq> []" by simp
  have t: "write_imports (current_session no_session_env) (pickle_type ?a) False False None [] @
            (if truthy None
             then ''model_path = Path('' @ DQ @ ''/models/resources/viya/'' @ the None @ DQ @
                  '')'' @ NL @
                  ''with open(model_path / '' @ DQ @ fmt_opt (pickle_type ?a) @ DQ @ '', '' @
                  DQ @ ''rb'' @ DQ @ '') as pickle_model:'' @ NL @
                  sp 4 @ ''model = '' @ ''Tree.pickle'' @ ''.load(pickle_model)'' @ NL @ NL
             else ''with open(Path(settings.pickle_path) / '' @ DQ @ fmt_opt (pickle_type ?a) @
                  DQ @ '', '' @ DQ @ ''rb'' @ DQ @ '') as pickle_model:'' @ NL @
                  ''    model = '' @ ''Tree.pickle'' @ ''.load(pickle_model)'' @ NL @ NL) =
      ''import math'' @ NL @ ''import dill'' @ NL @ ''import pandas as pd'' @ NL @
      ''import numpy as np'' @ NL @ ''from pathlib import Path'' @ NL @ NL @
      ''with open(Path(settings.pickle_path) / '' @ DQ @ ''dill'' @ DQ @ '', '' @ DQ @
      ''rb'' @ DQ @ '') as pickle_model:'' @ NL @
      ''    model = Tree.pickle.load(pickle_model)'' @ NL @ NL"
    by (simp add: write_imports_def no_session_env_def or_pickle_def Let_def)
  from load_block_arguments_interchanged [OF n r h b f e, of "[]"]
  show ?thesis unfolding t .
qed

section \<open>The imputation of a numeric column\<close>

text \<open>
  C9. Let \<^verbatim>\<open>missing_values\<close> be set, let the input be a frame and let the stages up to the
  imputation succeed. For a numeric column whose values are not all 0 or 1, the score code
  holds the imputation block with the mean of the column, in which the line
  \<^verbatim>\<open>except TypeError\<close> ends without a colon. For a numeric column whose values are all 0 or
  1, it holds the block with the mode of the column, in which the line is
  \<^verbatim>\<open>except TypeError:\<close>, with the colon.
\<close>

theorem imputation_without_colon:
  assumes "prepare e a buf = (Inr mid, buf5)"
      and "missing_values a"
      and "input_data a = DataFrame cols"
      and "c \<in> set cols" and "is_numeric (col_dtype c)"
  shows "(\<not> col_all01 c \<longrightarrow>
            sublist
              (sp 4 @ ''try:'' @ NL @ sp 8 @ ''if math.isnan('' @ col_name c @ ''):'' @ NL @
               sp 12 @ col_name c @ '' = '' @ col_mean c @ NL @
               sp 4 @ ''except TypeError'' @ NL @ sp 8 @ col_name c @ '' = '' @ col_mean c @ NL)
              (snd (write_score_code e a buf))) \<and>
         (col_all01 c \<longrightarrow>
            (\<exists>m. col_mode c = Some m \<and>
              sublist
                (sp 4 @ ''try:'' @ NL @ sp 8 @ ''if math.isnan('' @ col_name c @ ''):'' @ NL @
                 sp 12 @ col_name c @ '' = '' @ m @ NL @
                 sp 4 @ ''except TypeError:'' @ NL @ sp 8 @ col_name c @ '' = '' @ m @ NL)
                (snd (write_score_code e a buf))))"
proof -
  have grow: "\<And>t. sublist t buf5 \<Longrightarrow> sublist t (snd (write_score_code e a buf))"
    using prefix_prepare_write_score_code [of e a buf] assms(1)
    by (metis prefix_imp_sublist snd_conv sublist_order.order_trans)
  from imputation_in_prepare [OF assms]
  show ?thesis
    by (auto simp: mean_block_def mode_block_def split: if_splits intro: grow)
qed

theorem imputation_without_colon_witness:
  "sublist
     (''    try:'' @ NL @ ''        if math.isnan(LOAN):'' @ NL @
      ''            LOAN = 18607.97'' @ NL @
      ''    except TypeError'' @ NL @ ''        LOAN = 18607.97'' @ NL)
     (snd (write_score_code no_session_env (hmeq_args\<lparr>missing_values := True\<rparr>) []))"
proof -
  let ?a = "hmeq_args\<lparr>missing_values := True\<rparr>"
  let ?c = "\<lparr> col_name = ''LOAN'', col_dtype = ''int64'', col_all01 = False,
              col_mode = Some ''15000'', col_mean = ''18607.97'' \<rparr>"
  let ?d = "\<lparr> col_name = ''MORTDUE'', col_dtype = ''float64'', col_all01 = False,
              col_mode = Some ''42000.0'', col_mean = ''73760.82'' \<rparr>"
  have p: "prepare no_session_env ?a [] = (Inr None, snd (prepare no_session_env ?a []))"
    by code_simp
  have mv: "missing_values ?a" by simp
  have df: "input_data ?a = DataFrame [?c, ?d]" by (simp add: hmeq_args_def hmeq_def)
  have c: "?c \<in> set [?c, ?d]" by simp
  have num: "is_numeric (col_dtype ?c)" by code_simp
  have n: "\<not> col_all01 ?c" by simp
  have t: "sp 4 @ ''try:'' @ NL @ sp 8 @ ''if math.isnan('' @ col_name ?c @ ''):'' @ NL @
           sp 12 @ col_name ?c @ '' = '' @ col_mean ?c @ NL @
           sp 4 @ ''except TypeError'' @ NL @ sp 8 @ col_name ?c @ '' = '' @ col_mean ?c @ NL =
           ''    try:'' @ NL @ ''        if math.isnan(LOAN):'' @ NL @
           ''            LOAN = 18607.97'' @ NL @
           ''    except TypeError'' @ NL @ ''        LOAN = 18607.97'' @ NL"
    by code_simp
  from imputation_without_colon [OF p mv df c num, THEN conjunct1, THEN mp, OF n]
  show ?thesis unfolding t .
qed

section \<open>The prediction call for a statsmodels model\<close>

text \<open>
  C10. On the statsmodels path (the \<^verbatim>\<open>statsmodels_model\<close> flag given, no H2O model), once
  the stages before have succeeded and left the buffer \<open>buf5\<close>, the score code goes on with
  a prediction block that assigns the frame to \<^verbatim>\<open>inputArray\<close> and calls the predict method
  on \<^verbatim>\<open>input_array\<close>. The block is these four lines and nothing else, so it holds no
  assignment to \<^verbatim>\<open>input_array\<close>.
\<close>

theorem statsmodels_prediction_block:
  assumes "prepare e a buf = (Inr mid, buf5)"
      and "kw_statsmodels_model a" and "\<not> h2o_call a"
  shows "predict_call a buf5 =
           buf5 @ sp 4 @ ''inputArray = pd.DataFrame([[1.0, '' @
           join '', '' (var_names (input_data a)) @ '']],'' @ NL @
           sp 29 @ ''columns=['' @ DQ @ ''const'' @ DQ @ '', '' @
           join '', '' (map (\<lambda>col. DQ @ col @ DQ) (var_names (input_data a))) @ ''],'' @ NL @
           sp 29 @ ''dtype=float)'' @ NL @
           sp 4 @ ''prediction = model.'' @ predict_method a @ ''(input_array)'' @ NL \<and>
         prefix (predict_call a buf5) (snd (write_score_code e a buf))"
  using assms prefix_after_prepare [OF assms(1)]
  by (simp add: predict_call_def predict_method_stage_def column_names_def)

theorem statsmodels_prediction_block_witness:
  "prefix
     (snd (prepare no_session_env (hmeq_args\<lparr>kw_statsmodels_model := True\<rparr>) []) @
      ''    inputArray = pd.DataFrame([[1.0, LOAN, MORTDUE]],'' @ NL @
      ''                             columns=['' @ DQ @ ''const'' @ DQ @ '', '' @ DQ @
      ''LOAN'' @ DQ @ '', '' @ DQ @ ''MORTDUE'' @ DQ @ ''],'' @ NL @
      ''                             dtype=float)'' @ NL @
      ''    prediction = model.predict_proba(input_array)'' @ NL)
     (snd (write_score_code no_session_env (hmeq_args\<lparr>kw_statsmodels_model := True\<rparr>) []))"
proof -
  let ?a = "hmeq_args\<lparr>kw_statsmodels_model := True\<rparr>"
  have p: "prepare no_session_env ?a [] = (Inr None, snd (prepare no_session_env ?a []))"
    by code_simp
  have s: "kw_statsmodels_model ?a" by simp
  have h: "\<not> h2o_call ?a" by (simp add: h2o_call_def hmeq_args_def)
  have b: "sp 4 @ ''inputArray = pd.DataFrame([[1.0, '' @
           join '', '' (var_names (input_data ?a)) @ '']],'' @ NL @
           sp 29 @ ''columns=['' @ DQ @ ''const'' @ DQ @ '', '' @
           join '', '' (map (\<lambda>col. DQ @ col @ DQ) (var_names (input_data ?a))) @ ''],'' @ NL @
           sp 29 @ ''dtype=float)'' @ NL @
           sp 4 @ ''prediction = model.'' @ predict_method ?a @ ''(input_array)'' @ NL =
      ''    inputArray = pd.DataFrame([[1.0, LOAN, MORTDUE]],'' @ NL @
      ''                             columns=['' @ DQ @ ''const'' @ DQ @ '', '' @ DQ @
      ''LOAN'' @ DQ @ '', '' @ DQ @ ''MORTDUE'' @ DQ @ ''],'' @ NL @
      ''                             dtype=float)'' @ NL @
      ''    prediction = model.predict_proba(input_array)'' @ NL"
    by code_simp
  from statsmodels_prediction_block [OF p s h]
  have "prefix
     (snd (prepare no_session_env ?a []) @ sp 4 @ ''inputArray = pd.DataFrame([[1.0, '' @
           join '', '' (var_names (input_data ?a)) @ '']],'' @ NL @
           sp 29 @ ''columns=['' @ DQ @ ''const'' @ DQ @ '', '' @
           join '', '' (map (\<lambda>col. DQ @ col @ DQ) (var_names (input_data ?a))) @ ''],'' @ NL @
           sp 29 @ ''dtype=float)'' @ NL @
           sp 4 @ ''prediction = model.'' @ predict_method ?a @ ''(input_array)'' @ NL)
     (snd (write_score_code no_session_env ?a []))"
    by metis
  then show ?thesis unfolding b .
qed

end
